theory Spec2Isabelle
  imports Complex_Main "HOL-Library.Sublist"
begin

section \<open>JavaScript strings\<close>

text \<open>
  Strings are \<^typ>\<open>string\<close>. Case conversion is modelled on the ASCII letters, which is
  all the marker strings tested by the service contain; white space is the ASCII part of
  the class \<^verbatim>\<open>\s\<close> (which is also what \<^verbatim>\<open>trim\<close> removes), and \<^verbatim>\<open>\w\<close> is
  \<^verbatim>\<open>[A-Za-z0-9_]\<close>.
\<close>

definition toLowerChar :: "char \<Rightarrow> char" where
  "toLowerChar c =
     (case map_of (zip ''ABCDEFGHIJKLMNOPQRSTUVWXYZ'' ''abcdefghijklmnopqrstuvwxyz'') c of
        Some d \<Rightarrow> d | None \<Rightarrow> c)"

definition toUpperChar :: "char \<Rightarrow> char" where
  "toUpperChar c =
     (case map_of (zip ''abcdefghijklmnopqrstuvwxyz'' ''ABCDEFGHIJKLMNOPQRSTUVWXYZ'') c of
        Some d \<Rightarrow> d | None \<Rightarrow> c)"

definition toLowerCase :: "string \<Rightarrow> string" where
  "toLowerCase s = map toLowerChar s"

definition toUpperCase :: "string \<Rightarrow> string" where
  "toUpperCase s = map toUpperChar s"

text \<open>\<^verbatim>\<open>s.includes(p)\<close>: \<open>p\<close> occurs in \<open>s\<close> as a contiguous substring.\<close>

fun js_includes :: "string \<Rightarrow> string \<Rightarrow> bool" where
  "js_includes [] p = (p = [])"
| "js_includes (c # cs) p = (prefix p (c # cs) \<or> js_includes cs p)"

definition is_space :: "char \<Rightarrow> bool" where
  "is_space c = (c \<in> set [CHR 0x09, CHR 0x0A, CHR 0x0B, CHR 0x0C, CHR 0x0D, CHR '' ''])"

definition is_word_char :: "char \<Rightarrow> bool" where
  "is_word_char c =
     (c \<in> set ''abcdefghijklmnopqrstuvwxyzABCDEFGHIJKLMNOPQRSTUVWXYZ0123456789_'')"

definition trim :: "string \<Rightarrow> string" where
  "trim s = rev (dropWhile is_space (rev (dropWhile is_space s)))"

definition dquote :: string where
  "dquote = [CHR 0x22]"

section \<open>JSON values\<close>

text \<open>
  What \<^verbatim>\<open>JSON.parse\<close> returns. An object holds its own properties, each key once.
  Reading a property that is not there gives \<^verbatim>\<open>undefined\<close>, modelled as \<open>None\<close>.
\<close>

datatype json =
    JNull
  | JBool bool
  | JNum real
  | JStr string
  | JArr "json list"
  | JObj "(string \<times> json) list"

fun truthy :: "json \<Rightarrow> bool" where
  "truthy JNull = False"
| "truthy (JBool b) = b"
| "truthy (JNum x) = (x \<noteq> 0)"
| "truthy (JStr s) = (s \<noteq> [])"
| "truthy (JArr vs) = True"
| "truthy (JObj kvs) = True"

text \<open>\<^verbatim>\<open>typeof v === 'object'\<close> holds of \<^verbatim>\<open>null\<close>, of arrays and of objects.\<close>

fun typeof_object :: "json \<Rightarrow> bool" where
  "typeof_object JNull = True"
| "typeof_object (JArr vs) = True"
| "typeof_object (JObj kvs) = True"
| "typeof_object v = False"

text \<open>
  \<^verbatim>\<open>v.k\<close> on a value that is not \<^verbatim>\<open>null\<close>, for the property names the service reads
  (none of them is a built-in property of a string, number or array).
\<close>

fun get_prop :: "json \<Rightarrow> string \<Rightarrow> json option" where
  "get_prop (JObj kvs) k = map_of kvs k"
| "get_prop v k = None"

text \<open>\<^verbatim>\<open>x || y\<close> where \<open>x\<close> may be \<^verbatim>\<open>undefined\<close>.\<close>

fun js_or :: "json option \<Rightarrow> json \<Rightarrow> json" where
  "js_or None y = y"
| "js_or (Some x) y = (if truthy x then x else y)"

fun truthy_opt :: "json option \<Rightarrow> bool" where
  "truthy_opt None = False"
| "truthy_opt (Some x) = truthy x"

section \<open>The types of \<^verbatim>\<open>types.ts\<close> and \<^verbatim>\<open>constants.ts\<close>\<close>

datatype ComicStyle = TWO_D | THREE_D | REALISTIC | ANIME | CARTOON

datatype ComicEra = OLD | NEW | FUTURISTIC

datatype AspectRatio = SQUARE | PORTRAIT | LANDSCAPE

datatype ImageGenerationModel = IMAGEN_3 | GEMINI_2_FLASH_IMG

datatype TextGenerationModel =
  GEMINI_2_5_FLASH | GEMINI_2_5_FLASH_LITE | GEMINI_2_5_PRO | GEMINI_2_0_FLASH

datatype CaptionPlacement = IN_UI | IN_IMAGE

fun ComicStyle_value :: "ComicStyle \<Rightarrow> string" where
  "ComicStyle_value TWO_D = ''2D Animation''"
| "ComicStyle_value THREE_D = ''3D Rendered''"
| "ComicStyle_value REALISTIC = ''Photorealistic''"
| "ComicStyle_value ANIME = ''Anime/Manga''"
| "ComicStyle_value CARTOON = ''Classic Cartoon''"

fun ComicEra_value :: "ComicEra \<Rightarrow> string" where
  "ComicEra_value OLD = ''Vintage/Retro (e.g., 1950s-1970s style)''"
| "ComicEra_value NEW = ''Modern/Contemporary (e.g., 2000s-Present style)''"
| "ComicEra_value FUTURISTIC = ''Futuristic/Sci-Fi''"

fun ImageGenerationModel_value :: "ImageGenerationModel \<Rightarrow> string" where
  "ImageGenerationModel_value IMAGEN_3 = ''imagen-3.0-generate-002''"
| "ImageGenerationModel_value GEMINI_2_FLASH_IMG = ''gemini-2.0-flash-preview-image-generation''"

fun TextGenerationModel_value :: "TextGenerationModel \<Rightarrow> string" where
  "TextGenerationModel_value GEMINI_2_5_FLASH = ''gemini-2.5-flash''"
| "TextGenerationModel_value GEMINI_2_5_FLASH_LITE = ''gemini-2.5-flash-lite-preview-06-17''"
| "TextGenerationModel_value GEMINI_2_5_PRO = ''gemini-2.5-pro''"
| "TextGenerationModel_value GEMINI_2_0_FLASH = ''gemini-2.0-flash''"

definition FIXED_IMAGE_SEED :: int where
  "FIXED_IMAGE_SEED = 42"

record StoryInputOptions =
  story :: string
  style :: ComicStyle
  era :: ComicEra
  aspectRatio :: AspectRatio
  includeCaptions :: bool
  numPages :: nat
  imageModel :: ImageGenerationModel
  textModel :: TextGenerationModel
  captionPlacement :: CaptionPlacement

text \<open>
  A panel as it exists at run time. The interface declares \<^verbatim>\<open>scene_number: number\<close>,
  \<^verbatim>\<open>image_prompt: string\<close> and \<^verbatim>\<open>caption: string | null\<close>, but the service copies
  these three from the parsed response without checking their type, so they are JSON
  values here. \<open>imageUrl = None\<close> is the absent image slot.
\<close>

record ComicPanelData =
  scene_number :: json
  image_prompt :: json
  caption :: json
  dialogues :: "string list"
  imageUrl :: "string option"
  scene_description_for_prompt :: "string option"

section \<open>Thrown values and effects\<close>

text \<open>
  What a \<^verbatim>\<open>throw\<close> carries: an \<^verbatim>\<open>Error\<close> (or one of its two subclasses that matter
  here) with its message, or a value that is not an \<^verbatim>\<open>Error\<close>, given by its
  \<^verbatim>\<open>String(...)\<close> rendering. A function that may throw returns \<open>thrown + 'a\<close>.
\<close>

datatype thrown =
    Error string
  | SyntaxError string
  | TypeError string
  | NonError string

fun instanceof_Error :: "thrown \<Rightarrow> bool" where
  "instanceof_Error (NonError s) = False"
| "instanceof_Error e = True"

fun instanceof_SyntaxError :: "thrown \<Rightarrow> bool" where
  "instanceof_SyntaxError (SyntaxError m) = True"
| "instanceof_SyntaxError e = False"

fun thrown_text :: "thrown \<Rightarrow> string" where
  "thrown_text (Error m) = m"
| "thrown_text (SyntaxError m) = m"
| "thrown_text (TypeError m) = m"
| "thrown_text (NonError s) = s"

record text_request =
  tr_model :: string
  tr_contents :: string
  tr_responseMimeType :: string

record text_response =
  promptFeedback_blockReason :: "string option"
  response_text :: "string option"

text \<open>
  Requests to the image endpoints. \<open>config\<close> is the object literal the source passes,
  as the list of its keys and values.
\<close>

datatype Modality = TEXT | IMAGE

datatype config_value = CInt int | CStr string | CModalities "Modality list"

record generateContent_request =
  gc_model :: string
  gc_contents :: string
  gc_config :: "(string \<times> config_value) list"

record generateImages_request =
  gi_model :: string
  gi_prompt :: string
  gi_config :: "(string \<times> config_value) list"

datatype image_request =
    GenerateContent generateContent_request
  | GenerateImages generateImages_request

text \<open>What a call does besides returning, in the order it happens.\<close>

datatype effect =
    NewClient string
  | TextCall text_request
  | ImageCall image_request
  | Delay real

section \<open>\<^verbatim>\<open>generateScenePrompts\<close>\<close>

text \<open>
  The function of \<^verbatim>\<open>services/geminiService.ts\<close>. (The text appended to
  \<^verbatim>\<open>types.ts\<close> holds an earlier version of the same file, which parses the response
  as a bare array of scenes; the application imports the service.)
\<close>

text \<open>
  The parts of the run-time environment the function depends on: the instruction
  template (lines 68 to 160, pure text assembly), the text endpoint, \<^verbatim>\<open>JSON.parse\<close>
  (\<open>Inl m\<close> is a \<^verbatim>\<open>SyntaxError\<close> with message \<open>m\<close>), \<^verbatim>\<open>JSON.stringify\<close>, the
  \<^verbatim>\<open>String(...)\<close> conversion of a value that is not a string, and the message of the
  \<^verbatim>\<open>TypeError\<close> the engine raises when a property of \<^verbatim>\<open>null\<close> is read.
\<close>

record text_env =
  systemInstruction :: "StoryInputOptions \<Rightarrow> string"
  text_generateContent :: "text_request \<Rightarrow> thrown + text_response"
  JSON_parse :: "string \<Rightarrow> string + json"
  JSON_stringify :: "json \<Rightarrow> string"
  ToString :: "json \<Rightarrow> string"
  null_read_message :: "string \<Rightarrow> string"

text \<open>A value inside a template literal: a string stands for itself.\<close>

fun js_String :: "(json \<Rightarrow> string) \<Rightarrow> json \<Rightarrow> string" where
  "js_String conv (JStr s) = s"
| "js_String conv v = conv v"

text \<open>
  The regular expression \<^verbatim>\<open>/^```(\w*)?\s*\n?(.*?)\n?\s*```$/s\<close>, matched against the
  whole trimmed text. \<open>lazy_group\<close> is the lazy second group followed by
  \<^verbatim>\<open>\n?\s*```$\<close>: the shortest prefix after which only white space and the closing
  fence remain. The greedy prefix (\<^verbatim>\<open>\w*\<close>, then \<^verbatim>\<open>\s*\<close>, after which \<^verbatim>\<open>\n?\<close> has
  nothing left to take) never reaches a backquote, so when the lazy group fails after it,
  it fails after every shorter prefix too, and backtracking finds nothing more.
  \<open>match_fence\<close> returns the second group of the match.
\<close>

fun lazy_group :: "string \<Rightarrow> string \<Rightarrow> string option" where
  "lazy_group acc [] = (if dropWhile is_space [] = ''```'' then Some (rev acc) else None)"
| "lazy_group acc (c # cs) =
     (if dropWhile is_space (c # cs) = ''```'' then Some (rev acc)
      else lazy_group (c # acc) cs)"

definition match_fence :: "string \<Rightarrow> string option" where
  "match_fence s =
     (if prefix ''```'' s
      then lazy_group [] (dropWhile is_space (dropWhile is_word_char (drop 3 s)))
      else None)"

definition strip_fence :: "string \<Rightarrow> string" where
  "strip_fence responseText =
     (let jsonStr = trim responseText in
      case match_fence jsonStr of
        Some g \<Rightarrow> if g \<noteq> [] then trim g else jsonStr
      | None \<Rightarrow> jsonStr)"

text \<open>The callback of \<^verbatim>\<open>panel.dialogues.map\<close>, and the \<^verbatim>\<open>filter(Boolean)\<close> after it.\<close>

definition dialogue_line :: "text_env \<Rightarrow> json \<Rightarrow> string" where
  "dialogue_line env d =
     (case d of
        JStr s \<Rightarrow> s
      | _ \<Rightarrow>
          if truthy d \<and> truthy_opt (get_prop d ''character'') \<and> truthy_opt (get_prop d ''line'')
          then js_String (ToString env) (the (get_prop d ''character'')) @ '': '' @ dquote
                 @ js_String (ToString env) (the (get_prop d ''line'')) @ dquote
          else ToString env d)"

definition final_dialogues :: "text_env \<Rightarrow> json option \<Rightarrow> string list" where
  "final_dialogues env ds =
     (case ds of
        Some (JArr xs) \<Rightarrow> filter (\<lambda>s. s \<noteq> []) (map (dialogue_line env) xs)
      | _ \<Rightarrow> [])"

text \<open>
  The callback of \<^verbatim>\<open>scenes.map\<close> at position \<open>index\<close>. A scene that is \<^verbatim>\<open>null\<close>
  makes the first property read throw.
\<close>

definition scene_description :: "text_env \<Rightarrow> json \<Rightarrow> json \<Rightarrow> string" where
  "scene_description env characterCanon panel =
     JSON_stringify env
       (JObj ([(''characters'', characterCanon)]
              @ (case get_prop panel ''scene_description_for_prompt'' of
                   None \<Rightarrow> [] | Some v \<Rightarrow> [(''scene'', v)])
              @ [(''mood'', JStr ''default'')]))"

definition build_panel ::
  "text_env \<Rightarrow> StoryInputOptions \<Rightarrow> json \<Rightarrow> json \<Rightarrow> nat \<Rightarrow> thrown + ComicPanelData" where
  "build_panel env options characterCanon panel index =
     (let in_ui = (includeCaptions options \<and> captionPlacement options = IN_UI) in
      if panel = JNull
      then Inl (TypeError (null_read_message env (if in_ui then ''caption'' else ''scene_number'')))
      else
        let finalCaption = (if in_ui then js_or (get_prop panel ''caption'') (JStr []) else JNull);
            finalDialogues = (if in_ui then final_dialogues env (get_prop panel ''dialogues'') else [])
        in Inr \<lparr> scene_number = js_or (get_prop panel ''scene_number'') (JNum (real (index + 1))),
                 image_prompt = js_or (get_prop panel ''image_prompt'')
                                  (JStr ''No prompt generated for this scene.''),
                 caption = finalCaption,
                 dialogues = finalDialogues,
                 imageUrl = None,
                 scene_description_for_prompt = Some (scene_description env characterCanon panel) \<rparr>)"

fun map_panels ::
  "text_env \<Rightarrow> StoryInputOptions \<Rightarrow> json \<Rightarrow> json list \<Rightarrow> nat \<Rightarrow> thrown + ComicPanelData list" where
  "map_panels env options characterCanon [] index = Inr []"
| "map_panels env options characterCanon (panel # rest) index =
     (case build_panel env options characterCanon panel index of
        Inl e \<Rightarrow> Inl e
      | Inr p \<Rightarrow>
          (case map_panels env options characterCanon rest (Suc index) of
             Inl e \<Rightarrow> Inl e
           | Inr ps \<Rightarrow> Inr (p # ps)))"

text \<open>
  The body of the \<^verbatim>\<open>try\<close> up to the two validations (lines 163 to 197): the character
  canon and the scene list of the response, or what was thrown.
\<close>

definition model_name :: "StoryInputOptions \<Rightarrow> string" where
  "model_name options = TextGenerationModel_value (textModel options)"

definition parse_response ::
  "text_env \<Rightarrow> StoryInputOptions \<Rightarrow> text_request \<Rightarrow> thrown + (json \<times> json list)" where
  "parse_response env options req =
     (case text_generateContent env req of
        Inl e \<Rightarrow> Inl e
      | Inr result \<Rightarrow>
          (case promptFeedback_blockReason result of
             Some (b # bs) \<Rightarrow>
               Inl (Error (''Your story was blocked by content policies using model ''
                           @ model_name options @ '' ('' @ (b # bs)
                           @ ''). Please revise your story.''))
           | _ \<Rightarrow>
               (case response_text result of
                  Some (c # cs) \<Rightarrow>
                    (case JSON_parse env (strip_fence (c # cs)) of
                       Inl m \<Rightarrow> Inl (SyntaxError m)
                     | Inr parsedData \<Rightarrow>
                         (case get_prop parsedData ''scenes'' of
                            Some (JArr scenes) \<Rightarrow>
                              (case get_prop parsedData ''characterCanon'' of
                                 Some canon \<Rightarrow>
                                   if truthy canon \<and> typeof_object canon
                                   then Inr (canon, scenes)
                                   else Inl (Error (''API response (model: '' @ model_name options
                                     @ '') did not contain the expected '' @ [CHR 0x27]
                                     @ ''characterCanon'' @ [CHR 0x27] @ '' object.''))
                               | None \<Rightarrow>
                                   Inl (Error (''API response (model: '' @ model_name options
                                     @ '') did not contain the expected '' @ [CHR 0x27]
                                     @ ''characterCanon'' @ [CHR 0x27] @ '' object.'')))
                          | _ \<Rightarrow>
                              Inl (Error (''API response (model: '' @ model_name options
                                @ '') did not contain the expected JSON structure. Missing ''
                                @ [CHR 0x27] @ ''scenes'' @ [CHR 0x27] @ '' array or ''
                                @ [CHR 0x27] @ ''characterCanon'' @ [CHR 0x27] @ ''.''))))
                | _ \<Rightarrow>
                    Inl (Error (''API response (model: '' @ model_name options
                      @ '') was malformed or did not contain expected text content.'')))))"

definition scene_try ::
  "text_env \<Rightarrow> StoryInputOptions \<Rightarrow> text_request \<Rightarrow> thrown + ComicPanelData list" where
  "scene_try env options req =
     (case parse_response env options req of
        Inl e \<Rightarrow> Inl e
      | Inr (characterCanon, scenes) \<Rightarrow> map_panels env options characterCanon scenes 0)"

text \<open>The \<^verbatim>\<open>catch\<close> of lines 238 to 251: every thrown value is replaced by a new \<^verbatim>\<open>Error\<close>.\<close>

definition scene_catch :: "StoryInputOptions \<Rightarrow> thrown \<Rightarrow> thrown" where
  "scene_catch options e =
     (let message = (if instanceof_Error e then thrown_text e else ''An unknown error occurred.'');
          lower = toLowerCase message
      in if js_includes lower ''api key not valid'' \<or> js_includes lower ''permission denied''
         then Error (''Failed to generate scene prompts (model: '' @ model_name options
                @ '') due to an API key issue: '' @ message
                @ ''. Check your API key and permissions.'')
         else if instanceof_SyntaxError e \<or> js_includes lower ''json''
                 \<or> js_includes lower ''unexpected token'' \<or> js_includes lower ''malformed''
         then Error (''Failed to parse scene prompts from API response (model: ''
                @ model_name options @ ''): '' @ message @ ''. ''
                @ ''This can happen if the story is too long or requests too many pages, leading to an incomplete/malformed response. ''
                @ ''Try reducing pages or simplifying story.'')
         else Error (''Failed to generate scene prompts (model: '' @ model_name options
                @ ''). Error: '' @ message
                @ ''. Ensure API key is valid and model is accessible.''))"

definition scene_request :: "text_env \<Rightarrow> StoryInputOptions \<Rightarrow> text_request" where
  "scene_request env options =
     \<lparr> tr_model = model_name options,
       tr_contents = systemInstruction env options,
       tr_responseMimeType = ''application/json'' \<rparr>"

definition generateScenePrompts ::
  "text_env \<Rightarrow> string \<Rightarrow> StoryInputOptions \<Rightarrow> (thrown + ComicPanelData list) \<times> effect list" where
  "generateScenePrompts env apiKey options =
     (if apiKey = []
      then (Inl (Error ''API Key is required to generate scene prompts.''), [])
      else
        let req = scene_request env options in
        ((case scene_try env options req of
            Inl e \<Rightarrow> Inl (scene_catch options e)
          | Inr panels \<Rightarrow> Inr panels),
         [NewClient apiKey, TextCall req]))"

section \<open>\<^verbatim>\<open>generateImageForPrompt\<close>\<close>

text \<open>
  The two enumerations of the SDK that type a safety rating (\<^verbatim>\<open>HarmCategory\<close> and
  \<^verbatim>\<open>HarmProbability\<close> of \<^verbatim>\<open>@google/genai\<close>, imported at lines 18 and 19); a
  member's value is the string of its name.
\<close>

datatype HarmCategory =
    HARM_CATEGORY_UNSPECIFIED
  | HARM_CATEGORY_HATE_SPEECH
  | HARM_CATEGORY_DANGEROUS_CONTENT
  | HARM_CATEGORY_HARASSMENT
  | HARM_CATEGORY_SEXUALLY_EXPLICIT
  | HARM_CATEGORY_CIVIC_INTEGRITY
  | HARM_CATEGORY_IMAGE_HATE
  | HARM_CATEGORY_IMAGE_DANGEROUS_CONTENT
  | HARM_CATEGORY_IMAGE_HARASSMENT
  | HARM_CATEGORY_IMAGE_SEXUALLY_EXPLICIT
  | HARM_CATEGORY_JAILBREAK

datatype HarmProbability =
    HARM_PROBABILITY_UNSPECIFIED
  | NEGLIGIBLE
  | LOW
  | MEDIUM
  | HIGH

fun HarmCategory_value :: "HarmCategory \<Rightarrow> string" where
  "HarmCategory_value HARM_CATEGORY_UNSPECIFIED = ''HARM_CATEGORY_UNSPECIFIED''"
| "HarmCategory_value HARM_CATEGORY_HATE_SPEECH = ''HARM_CATEGORY_HATE_SPEECH''"
| "HarmCategory_value HARM_CATEGORY_DANGEROUS_CONTENT = ''HARM_CATEGORY_DANGEROUS_CONTENT''"
| "HarmCategory_value HARM_CATEGORY_HARASSMENT = ''HARM_CATEGORY_HARASSMENT''"
| "HarmCategory_value HARM_CATEGORY_SEXUALLY_EXPLICIT = ''HARM_CATEGORY_SEXUALLY_EXPLICIT''"
| "HarmCategory_value HARM_CATEGORY_CIVIC_INTEGRITY = ''HARM_CATEGORY_CIVIC_INTEGRITY''"
| "HarmCategory_value HARM_CATEGORY_IMAGE_HATE = ''HARM_CATEGORY_IMAGE_HATE''"
| "HarmCategory_value HARM_CATEGORY_IMAGE_DANGEROUS_CONTENT
     = ''HARM_CATEGORY_IMAGE_DANGEROUS_CONTENT''"
| "HarmCategory_value HARM_CATEGORY_IMAGE_HARASSMENT = ''HARM_CATEGORY_IMAGE_HARASSMENT''"
| "HarmCategory_value HARM_CATEGORY_IMAGE_SEXUALLY_EXPLICIT
     = ''HARM_CATEGORY_IMAGE_SEXUALLY_EXPLICIT''"
| "HarmCategory_value HARM_CATEGORY_JAILBREAK = ''HARM_CATEGORY_JAILBREAK''"

fun HarmProbability_value :: "HarmProbability \<Rightarrow> string" where
  "HarmProbability_value HARM_PROBABILITY_UNSPECIFIED = ''HARM_PROBABILITY_UNSPECIFIED''"
| "HarmProbability_value NEGLIGIBLE = ''NEGLIGIBLE''"
| "HarmProbability_value LOW = ''LOW''"
| "HarmProbability_value MEDIUM = ''MEDIUM''"
| "HarmProbability_value HIGH = ''HIGH''"

record SafetyRating =
  category :: HarmCategory
  probability :: HarmProbability
  blocked :: "bool option"

text \<open>
  The responses of the two image endpoints, with the fields the function reads.
  \<open>content_parts\<close> is \<^verbatim>\<open>candidate.content?.parts\<close> (\<open>None\<close> when either link is
  missing); an element of \<open>generatedImages\<close> is \<^verbatim>\<open>image?.imageBytes\<close> of that entry;
  \<open>api_error\<close> is \<^verbatim>\<open>JSON.stringify(response.error || response.code)\<close> when one of the
  two is truthy.
\<close>

record inline_data =
  inline_bytes :: "string option"
  mimeType :: "string option"

record part =
  inlineData :: "inline_data option"
  part_text :: "string option"

record candidate =
  finishReason :: "string option"
  safetyRatings :: "SafetyRating list option"
  content_parts :: "part list option"

record content_response =
  candidates :: "candidate list option"

record images_response =
  api_error :: "string option"
  generatedImages :: "string option list option"

text \<open>
  The environment of one call: \<^verbatim>\<open>JSON.parse\<close> (\<open>Inl\<close> is the message of the
  \<^verbatim>\<open>SyntaxError\<close> it throws; an object it returns has distinct property names, listed in
  the order in which \<^verbatim>\<open>for ... in\<close> visits them), the conversion to a string of a value
  that is not a string, the message of the \<^verbatim>\<open>TypeError\<close> raised when a property of
  \<^verbatim>\<open>null\<close> is read, the answer of each endpoint to the \<open>k\<close>-th call of the loop, and the
  \<open>k\<close>-th value drawn from \<^verbatim>\<open>Math.random()\<close>.
\<close>

record image_env =
  image_JSON_parse :: "string \<Rightarrow> string + json"
  image_ToString :: "json \<Rightarrow> string"
  image_null_read_message :: "string \<Rightarrow> string"
  image_generateContent :: "nat \<Rightarrow> generateContent_request \<Rightarrow> thrown + content_response"
  generateImages :: "nat \<Rightarrow> generateImages_request \<Rightarrow> thrown + images_response"
  random :: "nat \<Rightarrow> real"

definition maxRetries :: nat where
  "maxRetries = 2"

definition baseDelayMs :: real where
  "baseDelayMs = 2000"

fun apiAspectRatioValue :: "AspectRatio \<Rightarrow> string" where
  "apiAspectRatioValue SQUARE = ''1:1''"
| "apiAspectRatioValue PORTRAIT = ''9:16''"
| "apiAspectRatioValue LANDSCAPE = ''16:9''"

fun digit_char :: "nat \<Rightarrow> char" where
  "digit_char n = ''0123456789'' ! (n mod 10)"

fun show_nat :: "nat \<Rightarrow> string" where
  "show_nat n = (if n < 10 then [digit_char n] else show_nat (n div 10) @ [digit_char n])"

fun js_join :: "string \<Rightarrow> string list \<Rightarrow> string" where
  "js_join sep [] = []"
| "js_join sep [x] = x"
| "js_join sep (x # y # ys) = x @ sep @ js_join sep (y # ys)"

text \<open>
  The augmented prompt (lines 290 to 350). \<open>sceneDetails\<close> is the parsed prompt when it
  is an object or an array, the empty object when it parsed to anything else, and
  \<^verbatim>\<open>{ scene: initialImagePrompt }\<close> when the prompt is not JSON text.
\<close>

definition sceneDetails :: "image_env \<Rightarrow> string \<Rightarrow> json" where
  "sceneDetails env initialImagePrompt =
     (case image_JSON_parse env initialImagePrompt of
        Inl e \<Rightarrow> JObj [(''scene'', JStr initialImagePrompt)]
      | Inr parsedPrompt \<Rightarrow>
          if truthy parsedPrompt \<and> typeof_object parsedPrompt then parsedPrompt else JObj [])"

text \<open>
  The names that \<^verbatim>\<open>for (const name in v)\<close> visits, each with \<^verbatim>\<open>v[name]\<close>: the properties
  of an object, the indices of an array or of a string, nothing for a number or a boolean.
\<close>

fun for_in :: "json \<Rightarrow> (string \<times> json) list" where
  "for_in (JObj kvs) = kvs"
| "for_in (JArr vs) = zip (map show_nat [0..<length vs]) vs"
| "for_in (JStr s) = zip (map show_nat [0..<length s]) (map (\<lambda>c. JStr [c]) s)"
| "for_in v = []"

text \<open>
  The loop over the characters (lines 312 to 318); reading \<^verbatim>\<open>char.IVAP\<close> of a character
  that is \<^verbatim>\<open>null\<close> throws.
\<close>

fun character_loop :: "image_env \<Rightarrow> (string \<times> json) list \<Rightarrow> thrown + string list" where
  "character_loop env [] = Inr []"
| "character_loop env ((characterName, char) # rest) =
     (if char = JNull then Inl (TypeError (image_null_read_message env ''IVAP''))
      else
        let ivap = (case get_prop char ''IVAP'' of
                      None \<Rightarrow> characterName
                    | Some v \<Rightarrow> if truthy v
                               then js_String (image_ToString env) v @ '' ('' @ characterName @ '')''
                               else characterName);
            description = js_or (get_prop char ''description'')
                            (JStr ''detailed description unavailable'')
        in (case character_loop env rest of
              Inl e \<Rightarrow> Inl e
            | Inr sections \<Rightarrow>
                Inr ((''Character: '' @ ivap @ '', ''
                      @ js_String (image_ToString env) description @ ''.'') # sections)))"

definition characterSections :: "image_env \<Rightarrow> json \<Rightarrow> thrown + string list" where
  "characterSections env details =
     (case get_prop details ''characters'' of
        None \<Rightarrow> Inr []
      | Some characters \<Rightarrow>
          if truthy characters then character_loop env (for_in characters) else Inr [])"

fun context_part :: "image_env \<Rightarrow> string \<Rightarrow> json option \<Rightarrow> string list" where
  "context_part env label None = []"
| "context_part env label (Some v) =
     (if truthy v then [label @ js_String (image_ToString env) v @ ''.''] else [])"

definition sceneContext :: "image_env \<Rightarrow> json \<Rightarrow> string" where
  "sceneContext env details =
     js_join '' '' (context_part env ''Scene: '' (get_prop details ''scene'')
                     @ context_part env ''Mood: '' (get_prop details ''mood''))"

text \<open>The template literal of lines 327 to 350.\<close>

definition augmentedPrompt_template ::
  "string list \<Rightarrow> string \<Rightarrow> string \<Rightarrow> string \<Rightarrow> string" where
  "augmentedPrompt_template sections context style' era' =
     [CHR 0x0A] @ ''**[CHARACTER CANON AND SCENE CONTEXT - MANDATORY START]**'' @ [CHR 0x0A]
     @ js_join [CHR 0x0A] sections @ [CHR 0x0A] @ context @ [CHR 0x0A]
     @ ''**[END OF CHARACTER CANON AND SCENE CONTEXT]**'' @ [CHR 0x0A] @ [CHR 0x0A]
     @ ''**[MANDATORY ARTISTIC DIRECTIVES AND UNYIELDING CONSISTENCY RULES]**'' @ [CHR 0x0A]
     @ ''- **Overall Style:** Apply the '' @ dquote @ style' @ dquote
     @ '' style with absolute fidelity. Ensure all elements (color palette,''
     @ '' line art, rendering, composition) strictly adhere to this style.'' @ [CHR 0x0A]
     @ ''- **Era Integration:** The scene MUST meticulously reflect the '' @ dquote @ era'
     @ dquote @ '' period. Include era-appropriate details in backgrounds, props, and''
     @ '' character attire if not explicitly superseded by character-specific'' @ '' attire.''
     @ [CHR 0x0A] @ ''- **Visual Quality:** Render with extreme detail, aiming for''
     @ '' cinematic quality. Use ultra-high resolution aesthetics (e.g., 4K/8K''
     @ '' equivalent). Implement advanced lighting techniques like volumetric''
     @ '' lighting, rim lighting, and global illumination where fitting for''
     @ '' the mood. Ensure subjects are tack-sharp, with intricate textures''
     @ '' and environments. Aim for masterpiece-level digital art. Flawless''
     @ '' rendering is essential.'' @ [CHR 0x0A]
     @ ''- **[CRITICAL - FACIAL IDENTITY LOCK]:** The described facial''
     @ '' structure, specific features (eyes, nose, mouth, jawline, unique''
     @ '' marks like scars or moles), and hairstyle of ALL characters MUST''
     @ '' remain **IDENTICALLY THE SAME** across all generated panels, as if''
     @ '' rendered by the same artist with perfect recall. The character'' @ [CHR 0x27]
     @ ''s face is the **ABSOLUTE VISUAL ANCHOR**. Only alter features if the''
     @ '' scene explicitly dictates a disguise or transformation that modifies''
     @ '' these specific elements.'' @ [CHR 0x0A]
     @ ''- **[CRITICAL - CONSISTENCY]:** Character attire, accessories, and''
     @ '' general appearance MUST also match the provided canon descriptions''
     @ '' EXACTLY, unless the scene explicitly calls for a change.'' @ [CHR 0x0A]
     @ ''- **[CRITICAL - TRANSGENDER REPRESENTATION]:** If a character is''
     @ '' described as transgender, ensure their portrayal is consistently''
     @ '' feminine in features and presentation, respecting their identity as''
     @ '' per the character canon, unless an explicit disguise is part of this''
     @ '' specific scene'' @ [CHR 0x27] @ ''s prompt.'' @ [CHR 0x0A]
     @ ''- **[CRITICAL - TEXT EMBEDDING]:** If the scene context implies text''
     @ '' within the image (speech bubbles, signs, captions), render it''
     @ '' CLEARLY and LEGIBLY as a visual element.'' @ [CHR 0x0A] @ [CHR 0x0A]
     @ ''**[NEGATIVE PROMPTS - ABSOLUTELY AVOID]**'' @ [CHR 0x0A]
     @ ''- **NEVER DEVIATE FACIAL FEATURES:** Do not alter character'' @ [CHR 0x27]
     @ ''s established facial structure, eye shape/color, nose, mouth,''
     @ '' jawline, scars, moles, or hair color/style from the provided'' @ '' descriptions.''
     @ [CHR 0x0A] @ ''- **AVOID VISUAL INCONSISTENCY:** Do not introduce stylistic shifts,''
     @ '' rendering errors, pixelation, or digital artifacts.'' @ [CHR 0x0A]
     @ ''- **NO WRONG ANATOMY:** Avoid malformed limbs, incorrect number of''
     @ '' fingers, or distorted perspectives.'' @ [CHR 0x0A]
     @ ''- **CLEAN TEXT:** Ensure any text within the image is perfectly''
     @ '' readable and accurate.'' @ [CHR 0x0A]
     @ ''- **BACKGROUND INTEGRITY:** Do not use generic or mismatched''
     @ '' backgrounds; ensure they fit the scene and era.'' @ [CHR 0x0A]
     @ ''- **EMOTIONAL ACCURACY:** Character expressions and poses must match''
     @ '' the described mood and actions.'' @ [CHR 0x0A]
     @ ''- **NO ANachronisms:** Strictly adhere to the specified era for all'' @ '' elements.''
     @ [CHR 0x0A]"

definition augmentedPrompt :: "image_env \<Rightarrow> string \<Rightarrow> string \<Rightarrow> string \<Rightarrow> thrown + string" where
  "augmentedPrompt env initialImagePrompt style' era' =
     (let details = sceneDetails env initialImagePrompt in
      case characterSections env details of
        Inl e \<Rightarrow> Inl e
      | Inr sections \<Rightarrow>
          Inr (augmentedPrompt_template sections (sceneContext env details) style' era'))"

fun nonempty :: "string option \<Rightarrow> bool" where
  "nonempty None = False"
| "nonempty (Some s) = (s \<noteq> [])"

text \<open>The message built at lines 372 to 378 when the first candidate was stopped for safety.\<close>

definition safetyMessage :: "string \<Rightarrow> SafetyRating option \<Rightarrow> string" where
  "safetyMessage reason blockedRating =
     ''Image generation was blocked by safety filters (Reason: '' @ reason @ '').''
     @ (case blockedRating of
          None \<Rightarrow> []
        | Some r \<Rightarrow> '' Details: Category '' @ HarmCategory_value (category r)
                    @ '', Probability '' @ HarmProbability_value (probability r) @ ''.'')
     @ '' Please try a different prompt or adjust story content.''"

definition blockedRating :: "candidate \<Rightarrow> SafetyRating option" where
  "blockedRating c =
     (case safetyRatings c of
        None \<Rightarrow> None
      | Some rs \<Rightarrow> find (\<lambda>r. blocked r = Some True) rs)"

definition image_data_url :: "candidate \<Rightarrow> string option" where
  "image_data_url c =
     (case content_parts c of
        None \<Rightarrow> None
      | Some ps \<Rightarrow>
          (case find (\<lambda>p. inlineData p \<noteq> None) ps of
             None \<Rightarrow> None
           | Some imagePart \<Rightarrow>
               (case inlineData imagePart of
                  None \<Rightarrow> None
                | Some d \<Rightarrow>
                    if nonempty (inline_bytes d) \<and> nonempty (mimeType d)
                    then Some (''data:'' @ the (mimeType d) @ '';base64,'' @ the (inline_bytes d))
                    else None)))"

definition textFeedback :: "candidate option \<Rightarrow> string" where
  "textFeedback c =
     (case c of
        None \<Rightarrow> ''No explicit text feedback from API.''
      | Some cand \<Rightarrow>
          (case content_parts cand of
             None \<Rightarrow> ''No explicit text feedback from API.''
           | Some ps \<Rightarrow>
               (let textFeedbackParts = filter (\<lambda>p. nonempty (part_text p)) ps in
                if textFeedbackParts \<noteq> []
                then js_join '' '' (map (\<lambda>p. the (part_text p)) textFeedbackParts)
                else ''No explicit text feedback from API.'')))"

definition no_image_error :: "string \<Rightarrow> candidate option \<Rightarrow> thrown" where
  "no_image_error imageModelName c =
     Error (''API did not return an image for '' @ imageModelName @ ''. Feedback: '' @ dquote
            @ textFeedback c @ dquote
            @ ''. This could be due to restrictive safety filters, an issue with the prompt, or an API problem. Full response logged to console.'')"

text \<open>Lines 369 to 395: what the function does with the answer of \<^verbatim>\<open>generateContent\<close>.\<close>

definition flash_result :: "string \<Rightarrow> content_response \<Rightarrow> thrown + string" where
  "flash_result imageModelName result =
     (let first_candidate = (case candidates result of Some (c # cs) \<Rightarrow> Some c | _ \<Rightarrow> None) in
      case first_candidate of
        None \<Rightarrow> Inl (no_image_error imageModelName None)
      | Some c \<Rightarrow>
          if finishReason c = Some ''SAFETY'' \<or> finishReason c = Some ''IMAGE_SAFETY''
          then Inl (Error (safetyMessage (the (finishReason c)) (blockedRating c)))
          else (case image_data_url c of
                  Some url \<Rightarrow> Inr url
                | None \<Rightarrow> Inl (no_image_error imageModelName (Some c))))"

text \<open>Lines 412 to 421: what the function does with the answer of \<^verbatim>\<open>generateImages\<close>.\<close>

definition imagen_result :: "string \<Rightarrow> images_response \<Rightarrow> thrown + string" where
  "imagen_result imageModelName response =
     (case api_error response of
        Some j \<Rightarrow> Inl (Error (''Image generation failed for '' @ imageModelName
                               @ ''. API Error: '' @ j))
      | None \<Rightarrow>
          (case generatedImages response of
             Some (Some (b # bs) # others) \<Rightarrow> Inr (''data:image/jpeg;base64,'' @ (b # bs))
           | _ \<Rightarrow> Inl (Error (''No image data received from '' @ imageModelName
                    @ '' API. This could be due to safety filters or other issues. Full response logged to console.''))))"

text \<open>
  The request of one pass of the loop (lines 359 to 367 and 400 to 409) and the outcome
  of its \<^verbatim>\<open>try\<close> body; \<open>k\<close> counts the passes already made.
\<close>

definition image_request_of :: "string \<Rightarrow> string \<Rightarrow> string \<Rightarrow> image_request" where
  "image_request_of imageModelName prompt ratio =
     (if imageModelName = ImageGenerationModel_value GEMINI_2_FLASH_IMG
      then GenerateContent
             \<lparr> gc_model = imageModelName,
               gc_contents = prompt,
               gc_config = [(''responseModalities'', CModalities [TEXT, IMAGE]),
                            (''seed'', CInt FIXED_IMAGE_SEED)] \<rparr>
      else GenerateImages
             \<lparr> gi_model = imageModelName,
               gi_prompt = prompt,
               gi_config = [(''numberOfImages'', CInt 1),
                            (''outputMimeType'', CStr ''image/jpeg''),
                            (''aspectRatio'', CStr ratio),
                            (''seed'', CInt FIXED_IMAGE_SEED)] \<rparr>)"

definition attempt :: "image_env \<Rightarrow> string \<Rightarrow> image_request \<Rightarrow> nat \<Rightarrow> thrown + string" where
  "attempt env imageModelName req k =
     (case req of
        GenerateContent r \<Rightarrow>
          (case image_generateContent env k r of
             Inl e \<Rightarrow> Inl e
           | Inr result \<Rightarrow> flash_result imageModelName result)
      | GenerateImages r \<Rightarrow>
          (case generateImages env k r of
             Inl e \<Rightarrow> Inl e
           | Inr response \<Rightarrow> imagen_result imageModelName response))"

text \<open>The two requests by name, and the configuration object of a request.\<close>

definition flash_request :: "string \<Rightarrow> generateContent_request" where
  "flash_request prompt =
     \<lparr> gc_model = ImageGenerationModel_value GEMINI_2_FLASH_IMG,
       gc_contents = prompt,
       gc_config = [(''responseModalities'', CModalities [TEXT, IMAGE]),
                    (''seed'', CInt FIXED_IMAGE_SEED)] \<rparr>"

definition imagen_request :: "string \<Rightarrow> string \<Rightarrow> generateImages_request" where
  "imagen_request prompt ratio =
     \<lparr> gi_model = ImageGenerationModel_value IMAGEN_3,
       gi_prompt = prompt,
       gi_config = [(''numberOfImages'', CInt 1),
                    (''outputMimeType'', CStr ''image/jpeg''),
                    (''aspectRatio'', CStr ratio),
                    (''seed'', CInt FIXED_IMAGE_SEED)] \<rparr>"

definition request_config :: "image_request \<Rightarrow> (string \<times> config_value) list" where
  "request_config req =
     (case req of GenerateContent r \<Rightarrow> gc_config r | GenerateImages r \<Rightarrow> gi_config r)"

text \<open>The tests of the \<^verbatim>\<open>catch\<close> block (lines 424 to 447), in the order of the source.\<close>

definition isApiKeyIssue :: "string \<Rightarrow> bool" where
  "isApiKeyIssue errorMessage =
     (js_includes (toLowerCase errorMessage) ''api key not valid''
      \<or> js_includes (toLowerCase errorMessage) ''permission denied'')"

definition isRateLimitError :: "string \<Rightarrow> bool" where
  "isRateLimitError errorMessage =
     (js_includes (toLowerCase errorMessage) ''429''
      \<or> js_includes (toUpperCase errorMessage) ''RESOURCE_EXHAUSTED''
      \<or> js_includes (toUpperCase errorMessage) ''RATE_LIMIT_EXCEEDED'')"

definition isInternalServerError :: "string \<Rightarrow> bool" where
  "isInternalServerError errorMessage =
     (js_includes (toLowerCase errorMessage) ''status: 500''
      \<or> js_includes (toUpperCase errorMessage) ''INTERNAL ERROR''
      \<or> js_includes (toUpperCase errorMessage) ''INTERNAL'')"

definition isSafetyError :: "string \<Rightarrow> bool" where
  "isSafetyError errorMessage =
     (js_includes (toLowerCase errorMessage) ''blocked by safety filters''
      \<or> js_includes (toLowerCase errorMessage) ''safety policy'')"


datatype catch_outcome = Throw thrown | RetryAfter real

definition image_catch :: "image_env \<Rightarrow> string \<Rightarrow> nat \<Rightarrow> thrown \<Rightarrow> catch_outcome" where
  "image_catch env imageModelName retries error =
     (let errorMessage = thrown_text error in
      if isApiKeyIssue errorMessage
      then Throw (Error (''Image generation failed for model '' @ [CHR 0x27] @ imageModelName
                   @ [CHR 0x27] @ '' due to an API key issue: '' @ errorMessage
                   @ ''. Please check your API key and its permissions.''))
      else if (isRateLimitError errorMessage \<or> isInternalServerError errorMessage)
              \<and> retries < maxRetries
      then (let retries' = retries + 1 in
            RetryAfter (baseDelayMs * 2 ^ (retries' - 1) + random env retries * 1000))
      else if isSafetyError errorMessage
      then Throw error
      else Throw (Error (''API call failed for model '' @ [CHR 0x27] @ imageModelName
                   @ [CHR 0x27] @ '' (attempt '' @ show_nat (retries + 1) @ ''/''
                   @ show_nat (maxRetries + 1) @ ''). Original error: '' @ errorMessage)))"

text \<open>
  The \<^verbatim>\<open>while (retries <= maxRetries)\<close> loop. Every pass makes one call and either
  leaves the function or increments \<open>retries\<close>, so \<open>retries\<close> is also the number of
  calls and of random draws made before the pass.
\<close>

function retry_loop ::
  "image_env \<Rightarrow> string \<Rightarrow> string \<Rightarrow> string \<Rightarrow> nat \<Rightarrow> (thrown + string) \<times> effect list" where
  "retry_loop env imageModelName prompt ratio retries =
     (if retries \<le> maxRetries
      then
        (let req = image_request_of imageModelName prompt ratio in
         case attempt env imageModelName req retries of
           Inr url \<Rightarrow> (Inr url, [ImageCall req])
         | Inl error \<Rightarrow>
             (case image_catch env imageModelName retries error of
                Throw e \<Rightarrow> (Inl e, [ImageCall req])
              | RetryAfter delayTime \<Rightarrow>
                  (case retry_loop env imageModelName prompt ratio (Suc retries) of
                     (r, effects) \<Rightarrow> (r, ImageCall req # Delay delayTime # effects))))
      else (Inl (Error (''Failed to generate image after all retries for model '' @ [CHR 0x27]
                        @ imageModelName @ [CHR 0x27] @ ''. Check console for details.'')), []))"
  by pat_completeness auto
termination
  by (relation "measure (\<lambda>(env, imageModelName, prompt, ratio, retries). Suc maxRetries - retries)")
     auto

declare retry_loop.simps [simp del]

definition generateImageForPrompt ::
  "image_env \<Rightarrow> string \<Rightarrow> string \<Rightarrow> AspectRatio \<Rightarrow> string \<Rightarrow> string \<Rightarrow> string
     \<Rightarrow> (thrown + string) \<times> effect list" where
  "generateImageForPrompt env apiKey initialImagePrompt inputAspectRatio imageModelName style' era' =
     (if apiKey = []
      then (Inl (Error ''API Key is required for image generation.''), [])
      else
        (case augmentedPrompt env initialImagePrompt style' era' of
           Inl e \<Rightarrow> (Inl e, [NewClient apiKey])
         | Inr prompt \<Rightarrow>
             (case retry_loop env imageModelName prompt (apiAspectRatioValue inputAspectRatio) 0 of
                (r, effects) \<Rightarrow> (r, NewClient apiKey # effects))))"

section \<open>\<^verbatim>\<open>handleComicGeneration\<close>\<close>

text \<open>
  The state of the component that the two handlers read and write (the progress record
  is display only and is left out). \<open>app_error = None\<close> is \<^verbatim>\<open>null\<close>.
\<close>

record app_state =
  app_apiKey :: string
  comicPanels :: "ComicPanelData list"
  isLoading :: bool
  isDownloadingPdf :: bool
  app_error :: "string option"
  currentAspectRatio :: AspectRatio

record app_env =
  scene_env :: text_env
  image_envs :: "nat \<Rightarrow> image_env"

text \<open>
  \<^verbatim>\<open>p.scene_number === panel.scene_number\<close>, where \<open>p\<close> is at position \<open>j\<close> of the
  displayed list and \<open>panel\<close> at position \<open>i\<close> of \<^verbatim>\<open>scenePrompts\<close>. Primitive values
  are compared by value. Arrays and objects are compared by reference: the displayed
  list holds shallow copies of \<^verbatim>\<open>scenePrompts\<close> in the same order and no two scenes of
  one parsed response share an object, so the references agree exactly when \<open>j = i\<close>.
\<close>

fun same_scene_number :: "nat \<Rightarrow> json \<Rightarrow> nat \<Rightarrow> json \<Rightarrow> bool" where
  "same_scene_number j JNull i JNull = True"
| "same_scene_number j (JBool a) i (JBool b) = (a = b)"
| "same_scene_number j (JNum x) i (JNum y) = (x = y)"
| "same_scene_number j (JStr s) i (JStr t) = (s = t)"
| "same_scene_number j (JArr a) i (JArr b) = (j = i)"
| "same_scene_number j (JObj a) i (JObj b) = (j = i)"
| "same_scene_number j a i b = False"

fun set_image_from ::
  "nat \<Rightarrow> nat \<Rightarrow> json \<Rightarrow> string \<Rightarrow> ComicPanelData list \<Rightarrow> ComicPanelData list" where
  "set_image_from j i n v [] = []"
| "set_image_from j i n v (p # ps) =
     (if same_scene_number j (scene_number p) i n then p\<lparr>imageUrl := Some v\<rparr> else p)
     # set_image_from (Suc j) i n v ps"

text \<open>\<^verbatim>\<open>prevPanels.map(p => p.scene_number === panel.scene_number ? {...p, imageUrl: v} : p)\<close>\<close>

definition set_image :: "nat \<Rightarrow> json \<Rightarrow> string \<Rightarrow> ComicPanelData list \<Rightarrow> ComicPanelData list" where
  "set_image i n v prevPanels = set_image_from 0 i n v prevPanels"

definition append_error :: "string option \<Rightarrow> string \<Rightarrow> string option" where
  "append_error prevError panelErrMessage =
     (case prevError of
        Some (c # cs) \<Rightarrow> Some ((c # cs) @ [CHR 0x0A] @ panelErrMessage)
      | _ \<Rightarrow> Some panelErrMessage)"

text \<open>
  One pass of the loop over \<^verbatim>\<open>scenePrompts\<close> (lines 51 to 85), on the pair of the
  displayed panels and the error text. \<open>image_result\<close> is the outcome of the call of
  \<^verbatim>\<open>generateImageForPrompt\<close> of pass \<open>i\<close>, and \<open>slot_value\<close> what the pass then writes
  into the image slot.
\<close>

definition slot_value :: "thrown + string \<Rightarrow> string" where
  "slot_value r = (case r of Inr url \<Rightarrow> url | Inl imgError \<Rightarrow> ''error'')"

definition image_result ::
  "app_env \<Rightarrow> string \<Rightarrow> StoryInputOptions \<Rightarrow> nat \<Rightarrow> ComicPanelData \<Rightarrow> thrown + string" where
  "image_result env apiKey options i panel =
     fst (generateImageForPrompt (image_envs env i) apiKey
            (js_String (ToString (scene_env env)) (image_prompt panel))
            (aspectRatio options) (ImageGenerationModel_value (imageModel options))
            (ComicStyle_value (style options)) (ComicEra_value (era options)))"

definition image_step ::
  "app_env \<Rightarrow> string \<Rightarrow> StoryInputOptions \<Rightarrow> nat \<Rightarrow> ComicPanelData
     \<Rightarrow> ComicPanelData list \<times> string option \<Rightarrow> ComicPanelData list \<times> string option" where
  "image_step env apiKey options i panel st =
     (case image_result env apiKey options i panel of
        Inr url \<Rightarrow> (set_image i (scene_number panel) url (fst st), snd st)
      | Inl imgError \<Rightarrow>
          (let imgErrMessage = (if instanceof_Error imgError then thrown_text imgError
                                else ''Unknown image error'');
               panelErrMessage = ''Error on panel ''
                 @ js_String (ToString (scene_env env)) (scene_number panel) @ '': '' @ imgErrMessage
           in (set_image i (scene_number panel) ''error'' (fst st),
               append_error (snd st) panelErrMessage)))"

text \<open>The loop: the states after each pass, in order.\<close>

fun image_loop ::
  "app_env \<Rightarrow> string \<Rightarrow> StoryInputOptions \<Rightarrow> ComicPanelData list \<Rightarrow> nat
     \<Rightarrow> ComicPanelData list \<times> string option \<Rightarrow> (ComicPanelData list \<times> string option) list" where
  "image_loop env apiKey options [] i st = []"
| "image_loop env apiKey options (panel # rest) i st =
     (let st' = image_step env apiKey options i panel st in
      st' # image_loop env apiKey options rest (Suc i) st')"

definition generation_failed :: "app_state \<Rightarrow> thrown \<Rightarrow> app_state" where
  "generation_failed s err =
     (let errorMessage = (if instanceof_Error err then thrown_text err
                          else ''An unknown error occurred during comic generation.'');
          errorMessage' =
            (if js_includes (toLowerCase errorMessage) ''api key''
                \<or> js_includes (toLowerCase errorMessage) ''permission''
             then errorMessage
                  @ '' Please ensure API key is correct and has permissions for all selected models.''
             else errorMessage)
      in s\<lparr> app_error := Some errorMessage', comicPanels := [], isLoading := False \<rparr>)"

text \<open>
  The handler: the state it leaves (once the loading flag is cleared) and the successive
  values it gives to \<^verbatim>\<open>comicPanels\<close>.
\<close>

definition handleComicGeneration ::
  "app_env \<Rightarrow> StoryInputOptions \<Rightarrow> app_state \<Rightarrow> app_state \<times> ComicPanelData list list" where
  "handleComicGeneration env options s =
     (if trim (app_apiKey s) = []
      then (s\<lparr> app_error := Some ''Please enter your API Key to generate comics.'' \<rparr>, [])
      else
        (let s1 = s\<lparr> isLoading := True, app_error := None, comicPanels := [],
                     currentAspectRatio := aspectRatio options \<rparr> in
         case fst (generateScenePrompts (scene_env env) (app_apiKey s) options) of
           Inl err \<Rightarrow> (generation_failed s1 err, [[], []])
         | Inr scenePrompts \<Rightarrow>
             if scenePrompts = []
             then (generation_failed s1
                     (Error ''No scene prompts generated. Story might be too short or API issue. Check API key & story.''),
                   [[], []])
             else
               (let initialPanels = map (\<lambda>p. p\<lparr>imageUrl := None\<rparr>) scenePrompts;
                    states = image_loop env (app_apiKey s) options scenePrompts 0
                               (initialPanels, None);
                    final = last ((initialPanels, None) # states)
                in (s1\<lparr> comicPanels := fst final, app_error := snd final, isLoading := False \<rparr>,
                    [] # initialPanels # map fst states))))"

section \<open>\<^verbatim>\<open>handleDownloadPdf\<close>\<close>

text \<open>
  The document is the list of its pages, a page the list of what was drawn on it, in
  order; drawing goes to the last page. Numbers are real numbers (no rounding), and the
  font size and colour are kept only where they matter, as the font size at which
  \<^verbatim>\<open>splitTextToSize\<close> wraps a text. The environment gives the size of an image once
  loaded (\<open>None\<close>: it fails to load), whether \<^verbatim>\<open>addImage\<close> rejects it, the wrapping
  of a text, and the \<^verbatim>\<open>String(...)\<close> conversion.
\<close>

datatype pdf_op =
    TextOp "string list" real real
  | ImageOp string real real real real

type_synonym pdf_doc = "pdf_op list list"


definition pdf_addPage :: "pdf_doc \<Rightarrow> pdf_doc" where
  "pdf_addPage pdf = pdf @ [[]]"

definition pdf_draw :: "pdf_op \<Rightarrow> pdf_doc \<Rightarrow> pdf_doc" where
  "pdf_draw x pdf = butlast pdf @ [last pdf @ [x]]"













section \<open>Notions used in the statements\<close>

text \<open>The displayed panels once the first \<open>k\<close> passes are done.\<close>

definition panels_after ::
  "app_env \<Rightarrow> string \<Rightarrow> StoryInputOptions \<Rightarrow> ComicPanelData list \<Rightarrow> nat \<Rightarrow> ComicPanelData list" where
  "panels_after env apiKey options scenePrompts k =
     map (\<lambda>j. (scenePrompts ! j)\<lparr>imageUrl :=
                 (if j < k then Some (slot_value (image_result env apiKey options j (scenePrompts ! j)))
                  else None)\<rparr>)
       [0 ..< length scenePrompts]"




section \<open>Sample inputs\<close>

text \<open>
  A text endpoint that answers every request with the text \<open>answer\<close>, and a parser that
  knows the one text \<open>body\<close>, which it parses to \<open>parsed\<close>. In the samples the character
  canon is empty and no scene has a description, so that \<^verbatim>\<open>JSON.stringify\<close> is only
  applied to the object it is given the text of here.
\<close>

definition sample_ToString :: "json \<Rightarrow> string" where
  "sample_ToString v =
     (if v = JNum 1 then ''1'' else if v = JNum 2 then ''2'' else if v = JNum 3 then ''3''
      else if v = JNum 7 then ''7'' else ''[object Object]'')"

definition sample_description :: string where
  "sample_description =
     ''{'' @ dquote @ ''characters'' @ dquote @ '':{},'' @ dquote @ ''mood'' @ dquote @ '':''
     @ dquote @ ''default'' @ dquote @ ''}''"

definition sample_text_env :: "string \<Rightarrow> string \<Rightarrow> json \<Rightarrow> text_env" where
  "sample_text_env answer body parsed =
     \<lparr> systemInstruction = (\<lambda>options. ''Your task is to break down the provided story''),
       text_generateContent =
         (\<lambda>req. Inr \<lparr> promptFeedback_blockReason = None, response_text = Some answer \<rparr>),
       JSON_parse = (\<lambda>s. if s = body then Inr parsed else Inl ''Unexpected token''),
       JSON_stringify = (\<lambda>v. sample_description),
       ToString = sample_ToString,
       null_read_message = (\<lambda>k. ''Cannot read properties of null'') \<rparr>"

definition sample_options :: "nat \<Rightarrow> bool \<Rightarrow> CaptionPlacement \<Rightarrow> StoryInputOptions" where
  "sample_options n captions placement =
     \<lparr> story = ''Zara finds a map.'', style = ANIME, era = FUTURISTIC, aspectRatio = PORTRAIT,
       includeCaptions = captions, numPages = n, imageModel = GEMINI_2_FLASH_IMG,
       textModel = GEMINI_2_5_FLASH, captionPlacement = placement \<rparr>"

text \<open>One scene with a caption and a line of dialogue.\<close>

definition captioned_text :: string where
  "captioned_text =
     ''{'' @ dquote @ ''characterCanon'' @ dquote @ '':{},'' @ dquote @ ''scenes'' @ dquote
       @ '':[{'' @ dquote @ ''scene_number'' @ dquote @ '':1,'' @ dquote
       @ ''image_prompt'' @ dquote @ '':'' @ dquote @ ''Zara unfolds the map'' @ dquote
       @ '','' @ dquote @ ''caption'' @ dquote @ '':'' @ dquote
       @ ''Meanwhile, across town...'' @ dquote @ '','' @ dquote @ ''dialogues''
       @ dquote @ '':['' @ dquote @ ''Zara: Go!'' @ dquote @ '']}]}''"

definition captioned_response :: json where
  "captioned_response =
     JObj [(''characterCanon'', JObj []),
           (''scenes'', JArr [JObj [(''scene_number'', JNum 1),
                                   (''image_prompt'', JStr ''Zara unfolds the map''),
                                   (''caption'', JStr ''Meanwhile, across town...''),
                                   (''dialogues'', JArr [JStr ''Zara: Go!''])]])]"

definition captioned_env :: text_env where
  "captioned_env = sample_text_env captioned_text captioned_text captioned_response"

text \<open>One scene that numbers itself 7.\<close>

definition numbered_7_text :: string where
  "numbered_7_text =
     ''{'' @ dquote @ ''characterCanon'' @ dquote @ '':{},'' @ dquote @ ''scenes'' @ dquote
       @ '':[{'' @ dquote @ ''scene_number'' @ dquote @ '':7,'' @ dquote
       @ ''image_prompt'' @ dquote @ '':'' @ dquote @ ''Zara unfolds the map'' @ dquote
       @ ''}]}''"

definition one_scene_numbered_7 :: json where
  "one_scene_numbered_7 =
     JObj [(''characterCanon'', JObj []),
           (''scenes'', JArr [JObj [(''scene_number'', JNum 7),
                                   (''image_prompt'', JStr ''Zara unfolds the map'')]])]"

definition numbered_7_env :: text_env where
  "numbered_7_env = sample_text_env numbered_7_text numbered_7_text one_scene_numbered_7"

text \<open>Two scenes without numbers.\<close>

definition unnumbered_text :: string where
  "unnumbered_text =
     ''{'' @ dquote @ ''characterCanon'' @ dquote @ '':{},'' @ dquote @ ''scenes'' @ dquote
       @ '':[{'' @ dquote @ ''image_prompt'' @ dquote @ '':'' @ dquote
       @ ''Zara unfolds the map'' @ dquote @ ''},{'' @ dquote @ ''image_prompt''
       @ dquote @ '':'' @ dquote @ ''Zara runs'' @ dquote @ ''}]}''"

definition two_unnumbered_scenes :: json where
  "two_unnumbered_scenes =
     JObj [(''characterCanon'', JObj []),
           (''scenes'', JArr [JObj [(''image_prompt'', JStr ''Zara unfolds the map'')],
                             JObj [(''image_prompt'', JStr ''Zara runs'')]])]"

definition unnumbered_env :: text_env where
  "unnumbered_env = sample_text_env unnumbered_text unnumbered_text two_unnumbered_scenes"

definition plain_panel :: "real \<Rightarrow> string \<Rightarrow> ComicPanelData" where
  "plain_panel n p =
     \<lparr> scene_number = JNum n, image_prompt = JStr p, caption = JNull, dialogues = [],
       imageUrl = None, scene_description_for_prompt = Some sample_description \<rparr>"


text \<open>
  Image endpoints that answer the \<open>k\<close>-th call of the loop as scripted; the prompts of
  the samples are plain sentences, which \<^verbatim>\<open>JSON.parse\<close> rejects, and every random draw
  is one half. \<open>plain_prompt\<close> is the augmented prompt of a plain sentence.
\<close>

definition plain_prompt :: "string \<Rightarrow> string \<Rightarrow> string \<Rightarrow> string" where
  "plain_prompt p style' era' = augmentedPrompt_template [] (''Scene: '' @ p @ ''.'') style' era'"

definition cat_prompt :: string where
  "cat_prompt = plain_prompt ''A cat'' ''Anime/Manga'' ''Futuristic/Sci-Fi''"

definition scripted_image_env ::
  "(nat \<Rightarrow> thrown + content_response) \<Rightarrow> (nat \<Rightarrow> thrown + images_response) \<Rightarrow> image_env" where
  "scripted_image_env flash imagen =
     \<lparr> image_JSON_parse = (\<lambda>s. Inl ''Unexpected token''),
       image_ToString = sample_ToString,
       image_null_read_message = (\<lambda>k. ''Cannot read properties of null''),
       image_generateContent = (\<lambda>k r. flash k),
       generateImages = (\<lambda>k r. imagen k),
       random = (\<lambda>k. 1 / 2) \<rparr>"

definition image_answer :: content_response where
  "image_answer =
     \<lparr> candidates = Some [\<lparr> finishReason = Some ''STOP'', safetyRatings = None,
         content_parts = Some [\<lparr> inlineData = Some \<lparr> inline_bytes = Some ''iVBOR'',
                                                     mimeType = Some ''image/png'' \<rparr>,
                                 part_text = None \<rparr>] \<rparr>] \<rparr>"

definition safety_answer :: content_response where
  "safety_answer =
     \<lparr> candidates = Some [\<lparr> finishReason = Some ''SAFETY'',
         safetyRatings = Some [\<lparr> category = HARM_CATEGORY_HARASSMENT, probability = HIGH,
                                 blocked = Some True \<rparr>],
         content_parts = None \<rparr>] \<rparr>"

definition imagen_answer :: images_response where
  "imagen_answer = \<lparr> api_error = None, generatedImages = Some [Some ''/9j/4AAQ''] \<rparr>"


definition always_answers :: image_env where
  "always_answers = scripted_image_env (\<lambda>k. Inr image_answer) (\<lambda>k. Inr imagen_answer)"

definition safety_blocked :: image_env where
  "safety_blocked = scripted_image_env (\<lambda>k. Inr safety_answer) (\<lambda>k. Inr imagen_answer)"

text \<open>
  Runs of the application: two scenes whose numbers collide (the second has none and
  takes its position, 2), with the first image generated and the second blocked; and two
  scenes numbered by position, with the first image blocked and the second generated.
\<close>

definition colliding_text :: string where
  "colliding_text =
     ''{'' @ dquote @ ''characterCanon'' @ dquote @ '':{},'' @ dquote @ ''scenes'' @ dquote
       @ '':[{'' @ dquote @ ''scene_number'' @ dquote @ '':2,'' @ dquote
       @ ''image_prompt'' @ dquote @ '':'' @ dquote @ ''Zara unfolds the map'' @ dquote
       @ ''},{'' @ dquote @ ''image_prompt'' @ dquote @ '':'' @ dquote @ ''Zara runs''
       @ dquote @ ''}]}''"

definition colliding_numbers :: json where
  "colliding_numbers =
     JObj [(''characterCanon'', JObj []),
           (''scenes'', JArr [JObj [(''scene_number'', JNum 2),
                                   (''image_prompt'', JStr ''Zara unfolds the map'')],
                             JObj [(''image_prompt'', JStr ''Zara runs'')]])]"

definition colliding_env :: text_env where
  "colliding_env = sample_text_env colliding_text colliding_text colliding_numbers"

definition collision_env :: app_env where
  "collision_env =
     \<lparr> scene_env = colliding_env,
       image_envs = (\<lambda>i. if i = 0 then always_answers else safety_blocked) \<rparr>"

definition two_scene_env :: app_env where
  "two_scene_env =
     \<lparr> scene_env = unnumbered_env,
       image_envs = (\<lambda>i. if i = 0 then safety_blocked else always_answers) \<rparr>"

definition start_state :: app_state where
  "start_state =
     \<lparr> app_apiKey = ''key'', comicPanels = [], isLoading = False, isDownloadingPdf = False,
       app_error = None, currentAspectRatio = SQUARE \<rparr>"





section \<open>Properties of \<^verbatim>\<open>generateScenePrompts\<close>\<close>

lemmas scene_eval =
  generateScenePrompts_def scene_try_def parse_response_def scene_request_def build_panel_def
  sample_text_env_def sample_options_def strip_fence_def match_fence_def trim_def is_space_def
  captioned_env_def numbered_7_env_def unnumbered_env_def colliding_env_def captioned_text_def
  numbered_7_text_def unnumbered_text_def colliding_text_def dquote_def
  model_name_def scene_description_def final_dialogues_def dialogue_line_def plain_panel_def
  Let_def

lemma build_panel_no_ui:
  assumes "\<not> includeCaptions options \<or> captionPlacement options = IN_IMAGE"
    and "build_panel env options canon panel i = Inr p"
  shows "caption p = JNull \<and> dialogues p = []"
  using assms by (auto simp: build_panel_def Let_def split: if_splits)

lemma map_panels_no_ui:
  assumes "\<not> includeCaptions options \<or> captionPlacement options = IN_IMAGE"
    and "map_panels env options canon scenes i = Inr ps"
  shows "\<forall>p \<in> set ps. caption p = JNull \<and> dialogues p = []"
  using assms(2)
proof (induction scenes arbitrary: i ps)
  case Nil
  then show ?case by simp
next
  case (Cons a scenes)
  then show ?case using build_panel_no_ui[OF assms(1)]
    by (fastforce split: sum.splits)
qed

lemma map_panels_length:
  "map_panels env options canon scenes i = Inr ps \<Longrightarrow> length ps = length scenes"
  by (induction scenes arbitrary: i ps) (auto split: sum.splits)

lemma map_panels_nth:
  "map_panels env options canon scenes i = Inr ps \<Longrightarrow> k < length scenes \<Longrightarrow>
     build_panel env options canon (scenes ! k) (i + k) = Inr (ps ! k)"
proof (induction scenes arbitrary: i ps k)
  case Nil
  then show ?case by simp
next
  case (Cons a scenes)
  show ?case
  proof (cases k)
    case 0
    with Cons.prems show ?thesis by (auto split: sum.splits)
  next
    case (Suc n)
    from Cons.prems obtain p ps' where ps: "ps = p # ps'"
      and m: "map_panels env options canon scenes (Suc i) = Inr ps'"
      by (auto split: sum.splits)
    from Cons.prems Suc have "n < length scenes" by simp
    from Cons.IH[OF m this] show ?thesis using Suc ps by simp
  qed
qed

lemma build_panel_scene_number:
  "build_panel env options canon panel i = Inr p \<Longrightarrow>
     scene_number p = js_or (get_prop panel ''scene_number'') (JNum (real (i + 1)))"
  by (auto simp: build_panel_def Let_def split: if_splits)

lemma generateScenePrompts_success:
  assumes "fst (generateScenePrompts env apiKey options) = Inr panels"
  shows "\<exists>canon scenes.
           parse_response env options (scene_request env options) = Inr (canon, scenes)
           \<and> map_panels env options canon scenes 0 = Inr panels"
  using assms
  by (auto simp: generateScenePrompts_def scene_try_def Let_def
           split: if_splits sum.splits prod.splits)

text \<open>
  C10. With the empty string as API key, \<^verbatim>\<open>generateScenePrompts\<close> and
  \<^verbatim>\<open>generateImageForPrompt\<close> both throw at once: the result is the error and nothing
  has happened before it, no client was constructed and no request was sent.
\<close>

theorem empty_apiKey_throws_before_any_call:
  "generateScenePrompts tenv [] options
     = (Inl (Error ''API Key is required to generate scene prompts.''), [])
   \<and> generateImageForPrompt ienv [] initialImagePrompt inputAspectRatio imageModelName style' era'
     = (Inl (Error ''API Key is required for image generation.''), [])"
  by (simp add: generateScenePrompts_def generateImageForPrompt_def)

text \<open>
  C2. When captions are not included, or the caption placement is the embed-in-image
  mode, every panel that \<^verbatim>\<open>generateScenePrompts\<close> returns has the caption \<^verbatim>\<open>null\<close>
  and no dialogues, whatever the text endpoint and the parser return.
\<close>

theorem captions_forced_empty:
  assumes "\<not> includeCaptions options \<or> captionPlacement options = IN_IMAGE"
    and "fst (generateScenePrompts env apiKey options) = Inr panels"
  shows "\<forall>p \<in> set panels. caption p = JNull \<and> dialogues p = []"
proof -
  from generateScenePrompts_success[OF assms(2)] obtain canon scenes
    where "map_panels env options canon scenes 0 = Inr panels" by blast
  from map_panels_no_ui[OF assms(1) this] show ?thesis .
qed

text \<open>
  The response carries a caption and a line of dialogue; with the embed-in-image
  placement the panel has neither.
\<close>

theorem captions_forced_empty_witness:
  "captionPlacement (sample_options 1 True IN_IMAGE) = IN_IMAGE
   \<and> fst (generateScenePrompts captioned_env ''key''
            (sample_options 1 True IN_IMAGE))
       = Inr [plain_panel 1 ''Zara unfolds the map'']
   \<and> caption (plain_panel 1 ''Zara unfolds the map'') = JNull
   \<and> dialogues (plain_panel 1 ''Zara unfolds the map'') = []"
proof -
  have h1: "\<not> includeCaptions (sample_options 1 True IN_IMAGE)
            \<or> captionPlacement (sample_options 1 True IN_IMAGE) = IN_IMAGE"
    by (simp add: sample_options_def)
  have h2: "fst (generateScenePrompts captioned_env ''key''
                   (sample_options 1 True IN_IMAGE))
            = Inr [plain_panel 1 ''Zara unfolds the map'']"
    by (simp add: scene_eval captioned_response_def)
  from captions_forced_empty[OF h1 h2] h2 show ?thesis
    by (simp add: sample_options_def)
qed

text \<open>
  C1, as stated, fails: asked for two pages, the endpoint answers with one scene that
  numbers itself 7, and the call succeeds with that one panel, numbered 7.
\<close>

theorem panel_count_and_numbers_counterexample:
  "numPages (sample_options 2 False IN_UI) = 2
   \<and> fst (generateScenePrompts numbered_7_env ''key''
            (sample_options 2 False IN_UI))
       = Inr [plain_panel 7 ''Zara unfolds the map'']
   \<and> length [plain_panel 7 ''Zara unfolds the map''] \<noteq> 2
   \<and> scene_number (plain_panel 7 ''Zara unfolds the map'') \<noteq> JNum 1"
  by (simp add: scene_eval one_scene_numbered_7_def)

text \<open>
  C1, amended. A successful call returns one panel for each element of the scene list of
  the parsed response, in order; the requested page count is written into the
  instruction and is not compared with the answer. The panel at position \<open>i\<close> (from 0)
  has the scene number of its scene when that is truthy and \<open>i + 1\<close> otherwise, so the
  numbers are 1, 2, ... in order when no scene carries a number of its own.
\<close>

theorem panels_follow_returned_scenes:
  assumes "fst (generateScenePrompts env apiKey options) = Inr panels"
  shows "\<exists>canon scenes.
           parse_response env options (scene_request env options) = Inr (canon, scenes)
           \<and> length panels = length scenes
           \<and> (\<forall>i < length scenes.
                 scene_number (panels ! i)
                   = js_or (get_prop (scenes ! i) ''scene_number'') (JNum (real (i + 1))))
           \<and> ((\<forall>i < length scenes. \<not> truthy_opt (get_prop (scenes ! i) ''scene_number''))
                \<longrightarrow> map scene_number panels = map (\<lambda>i. JNum (real (i + 1))) [0 ..< length scenes])"
proof -
  from generateScenePrompts_success[OF assms] obtain canon scenes
    where pr: "parse_response env options (scene_request env options) = Inr (canon, scenes)"
      and mp: "map_panels env options canon scenes 0 = Inr panels" by blast
  have len: "length panels = length scenes" using map_panels_length[OF mp] .
  have num: "\<forall>i < length scenes.
                 scene_number (panels ! i)
                   = js_or (get_prop (scenes ! i) ''scene_number'') (JNum (real (i + 1)))"
    using map_panels_nth[OF mp] build_panel_scene_number by fastforce
  have dense: "map scene_number panels = map (\<lambda>i. JNum (real (i + 1))) [0 ..< length scenes]"
    if un: "\<forall>i < length scenes. \<not> truthy_opt (get_prop (scenes ! i) ''scene_number'')"
  proof (rule nth_equalityI)
    show "length (map scene_number panels) = length (map (\<lambda>i. JNum (real (i + 1))) [0 ..< length scenes])"
      using len by simp
  next
    fix i assume "i < length (map scene_number panels)"
    then have i: "i < length scenes" using len by simp
    have "js_or (get_prop (scenes ! i) ''scene_number'') (JNum (real (i + 1))) = JNum (real (i + 1))"
      using un i by (cases "get_prop (scenes ! i) ''scene_number''") auto
    with num i len show "map scene_number panels ! i = map (\<lambda>i. JNum (real (i + 1))) [0 ..< length scenes] ! i"
      by simp
  qed
  from pr len num dense show ?thesis by blast
qed

theorem panels_follow_returned_scenes_witness:
  "fst (generateScenePrompts unnumbered_env ''key''
          (sample_options 2 False IN_UI))
     = Inr [plain_panel 1 ''Zara unfolds the map'', plain_panel 2 ''Zara runs'']
   \<and> (\<exists>canon scenes.
         parse_response unnumbered_env (sample_options 2 False IN_UI)
           (scene_request unnumbered_env (sample_options 2 False IN_UI))
           = Inr (canon, scenes)
         \<and> length [plain_panel 1 ''Zara unfolds the map'', plain_panel 2 ''Zara runs''] = length scenes)"
proof -
  have h: "fst (generateScenePrompts unnumbered_env ''key''
                  (sample_options 2 False IN_UI))
           = Inr [plain_panel 1 ''Zara unfolds the map'', plain_panel 2 ''Zara runs'']"
    by (simp add: scene_eval two_unnumbered_scenes_def)
  from panels_follow_returned_scenes[OF h] h show ?thesis by blast
qed

subsection \<open>The code fence\<close>









subsection \<open>Evaluating the string tests\<close>

text \<open>
  Congruence rules that keep the simplifier out of the text being searched, and the case
  conversions of the printable characters.
\<close>

lemma js_includes_block: "js_includes s p = js_includes s p" by (rule refl)
lemma prefix_block: "prefix p s = prefix p s" by (rule refl)
lemma append_block: "xs @ ys = xs @ ys" by (rule refl)
lemma map_block: "f = g \<Longrightarrow> map f xs = map g xs" by simp

lemma js_includes_step:
  "js_includes (c # cs) (q # qs)
     = (if c = q then (prefix qs cs \<or> js_includes cs (q # qs)) else js_includes cs (q # qs))"
  by simp

lemma prefix_step:
  "prefix (q # qs) (c # cs) = (if q = c then prefix qs cs else False)"
  by simp

lemmas includes_eval = js_includes_step prefix_step

lemma toLowerChar_table:
  "toLowerChar (CHR '' '') = CHR '' ''" "toLowerChar (CHR ''!'') = CHR ''!''" "toLowerChar (CHR 0x22) = CHR 0x22"
  "toLowerChar (CHR ''#'') = CHR ''#''" "toLowerChar (CHR ''$'') = CHR ''$''" "toLowerChar (CHR ''%'') = CHR ''%''"
  "toLowerChar (CHR ''&'') = CHR ''&''" "toLowerChar (CHR 0x27) = CHR 0x27" "toLowerChar (CHR ''('') = CHR ''(''"
  "toLowerChar (CHR '')'') = CHR '')''" "toLowerChar (CHR ''*'') = CHR ''*''" "toLowerChar (CHR ''+'') = CHR ''+''"
  "toLowerChar (CHR '','') = CHR '',''" "toLowerChar (CHR ''-'') = CHR ''-''" "toLowerChar (CHR ''.'') = CHR ''.''"
  "toLowerChar (CHR ''/'') = CHR ''/''" "toLowerChar (CHR ''0'') = CHR ''0''" "toLowerChar (CHR ''1'') = CHR ''1''"
  "toLowerChar (CHR ''2'') = CHR ''2''" "toLowerChar (CHR ''3'') = CHR ''3''" "toLowerChar (CHR ''4'') = CHR ''4''"
  "toLowerChar (CHR ''5'') = CHR ''5''" "toLowerChar (CHR ''6'') = CHR ''6''" "toLowerChar (CHR ''7'') = CHR ''7''"
  "toLowerChar (CHR ''8'') = CHR ''8''" "toLowerChar (CHR ''9'') = CHR ''9''" "toLowerChar (CHR '':'') = CHR '':''"
  "toLowerChar (CHR '';'') = CHR '';''" "toLowerChar (CHR ''<'') = CHR ''<''" "toLowerChar (CHR ''='') = CHR ''=''"
  "toLowerChar (CHR ''>'') = CHR ''>''" "toLowerChar (CHR ''?'') = CHR ''?''" "toLowerChar (CHR ''@'') = CHR ''@''"
  "toLowerChar (CHR ''A'') = CHR ''a''" "toLowerChar (CHR ''B'') = CHR ''b''" "toLowerChar (CHR ''C'') = CHR ''c''"
  "toLowerChar (CHR ''D'') = CHR ''d''" "toLowerChar (CHR ''E'') = CHR ''e''" "toLowerChar (CHR ''F'') = CHR ''f''"
  "toLowerChar (CHR ''G'') = CHR ''g''" "toLowerChar (CHR ''H'') = CHR ''h''" "toLowerChar (CHR ''I'') = CHR ''i''"
  "toLowerChar (CHR ''J'') = CHR ''j''" "toLowerChar (CHR ''K'') = CHR ''k''" "toLowerChar (CHR ''L'') = CHR ''l''"
  "toLowerChar (CHR ''M'') = CHR ''m''" "toLowerChar (CHR ''N'') = CHR ''n''" "toLowerChar (CHR ''O'') = CHR ''o''"
  "toLowerChar (CHR ''P'') = CHR ''p''" "toLowerChar (CHR ''Q'') = CHR ''q''" "toLowerChar (CHR ''R'') = CHR ''r''"
  "toLowerChar (CHR ''S'') = CHR ''s''" "toLowerChar (CHR ''T'') = CHR ''t''" "toLowerChar (CHR ''U'') = CHR ''u''"
  "toLowerChar (CHR ''V'') = CHR ''v''" "toLowerChar (CHR ''W'') = CHR ''w''" "toLowerChar (CHR ''X'') = CHR ''x''"
  "toLowerChar (CHR ''Y'') = CHR ''y''" "toLowerChar (CHR ''Z'') = CHR ''z''" "toLowerChar (CHR ''['') = CHR ''[''"
  "toLowerChar (CHR 0x5C) = CHR 0x5C" "toLowerChar (CHR '']'') = CHR '']''" "toLowerChar (CHR ''^'') = CHR ''^''"
  "toLowerChar (CHR ''_'') = CHR ''_''" "toLowerChar (CHR 0x60) = CHR 0x60" "toLowerChar (CHR ''a'') = CHR ''a''"
  "toLowerChar (CHR ''b'') = CHR ''b''" "toLowerChar (CHR ''c'') = CHR ''c''" "toLowerChar (CHR ''d'') = CHR ''d''"
  "toLowerChar (CHR ''e'') = CHR ''e''" "toLowerChar (CHR ''f'') = CHR ''f''" "toLowerChar (CHR ''g'') = CHR ''g''"
  "toLowerChar (CHR ''h'') = CHR ''h''" "toLowerChar (CHR ''i'') = CHR ''i''" "toLowerChar (CHR ''j'') = CHR ''j''"
  "toLowerChar (CHR ''k'') = CHR ''k''" "toLowerChar (CHR ''l'') = CHR ''l''" "toLowerChar (CHR ''m'') = CHR ''m''"
  "toLowerChar (CHR ''n'') = CHR ''n''" "toLowerChar (CHR ''o'') = CHR ''o''" "toLowerChar (CHR ''p'') = CHR ''p''"
  "toLowerChar (CHR ''q'') = CHR ''q''" "toLowerChar (CHR ''r'') = CHR ''r''" "toLowerChar (CHR ''s'') = CHR ''s''"
  "toLowerChar (CHR ''t'') = CHR ''t''" "toLowerChar (CHR ''u'') = CHR ''u''" "toLowerChar (CHR ''v'') = CHR ''v''"
  "toLowerChar (CHR ''w'') = CHR ''w''" "toLowerChar (CHR ''x'') = CHR ''x''" "toLowerChar (CHR ''y'') = CHR ''y''"
  "toLowerChar (CHR ''z'') = CHR ''z''" "toLowerChar (CHR ''{'') = CHR ''{''" "toLowerChar (CHR ''|'') = CHR ''|''"
  "toLowerChar (CHR ''}'') = CHR ''}''" "toLowerChar (CHR ''~'') = CHR ''~''"
  by (simp_all add: toLowerChar_def)

lemma toUpperChar_table:
  "toUpperChar (CHR '' '') = CHR '' ''" "toUpperChar (CHR ''!'') = CHR ''!''" "toUpperChar (CHR 0x22) = CHR 0x22"
  "toUpperChar (CHR ''#'') = CHR ''#''" "toUpperChar (CHR ''$'') = CHR ''$''" "toUpperChar (CHR ''%'') = CHR ''%''"
  "toUpperChar (CHR ''&'') = CHR ''&''" "toUpperChar (CHR 0x27) = CHR 0x27" "toUpperChar (CHR ''('') = CHR ''(''"
  "toUpperChar (CHR '')'') = CHR '')''" "toUpperChar (CHR ''*'') = CHR ''*''" "toUpperChar (CHR ''+'') = CHR ''+''"
  "toUpperChar (CHR '','') = CHR '',''" "toUpperChar (CHR ''-'') = CHR ''-''" "toUpperChar (CHR ''.'') = CHR ''.''"
  "toUpperChar (CHR ''/'') = CHR ''/''" "toUpperChar (CHR ''0'') = CHR ''0''" "toUpperChar (CHR ''1'') = CHR ''1''"
  "toUpperChar (CHR ''2'') = CHR ''2''" "toUpperChar (CHR ''3'') = CHR ''3''" "toUpperChar (CHR ''4'') = CHR ''4''"
  "toUpperChar (CHR ''5'') = CHR ''5''" "toUpperChar (CHR ''6'') = CHR ''6''" "toUpperChar (CHR ''7'') = CHR ''7''"
  "toUpperChar (CHR ''8'') = CHR ''8''" "toUpperChar (CHR ''9'') = CHR ''9''" "toUpperChar (CHR '':'') = CHR '':''"
  "toUpperChar (CHR '';'') = CHR '';''" "toUpperChar (CHR ''<'') = CHR ''<''" "toUpperChar (CHR ''='') = CHR ''=''"
  "toUpperChar (CHR ''>'') = CHR ''>''" "toUpperChar (CHR ''?'') = CHR ''?''" "toUpperChar (CHR ''@'') = CHR ''@''"
  "toUpperChar (CHR ''A'') = CHR ''A''" "toUpperChar (CHR ''B'') = CHR ''B''" "toUpperChar (CHR ''C'') = CHR ''C''"
  "toUpperChar (CHR ''D'') = CHR ''D''" "toUpperChar (CHR ''E'') = CHR ''E''" "toUpperChar (CHR ''F'') = CHR ''F''"
  "toUpperChar (CHR ''G'') = CHR ''G''" "toUpperChar (CHR ''H'') = CHR ''H''" "toUpperChar (CHR ''I'') = CHR ''I''"
  "toUpperChar (CHR ''J'') = CHR ''J''" "toUpperChar (CHR ''K'') = CHR ''K''" "toUpperChar (CHR ''L'') = CHR ''L''"
  "toUpperChar (CHR ''M'') = CHR ''M''" "toUpperChar (CHR ''N'') = CHR ''N''" "toUpperChar (CHR ''O'') = CHR ''O''"
  "toUpperChar (CHR ''P'') = CHR ''P''" "toUpperChar (CHR ''Q'') = CHR ''Q''" "toUpperChar (CHR ''R'') = CHR ''R''"
  "toUpperChar (CHR ''S'') = CHR ''S''" "toUpperChar (CHR ''T'') = CHR ''T''" "toUpperChar (CHR ''U'') = CHR ''U''"
  "toUpperChar (CHR ''V'') = CHR ''V''" "toUpperChar (CHR ''W'') = CHR ''W''" "toUpperChar (CHR ''X'') = CHR ''X''"
  "toUpperChar (CHR ''Y'') = CHR ''Y''" "toUpperChar (CHR ''Z'') = CHR ''Z''" "toUpperChar (CHR ''['') = CHR ''[''"
  "toUpperChar (CHR 0x5C) = CHR 0x5C" "toUpperChar (CHR '']'') = CHR '']''" "toUpperChar (CHR ''^'') = CHR ''^''"
  "toUpperChar (CHR ''_'') = CHR ''_''" "toUpperChar (CHR 0x60) = CHR 0x60" "toUpperChar (CHR ''a'') = CHR ''A''"
  "toUpperChar (CHR ''b'') = CHR ''B''" "toUpperChar (CHR ''c'') = CHR ''C''" "toUpperChar (CHR ''d'') = CHR ''D''"
  "toUpperChar (CHR ''e'') = CHR ''E''" "toUpperChar (CHR ''f'') = CHR ''F''" "toUpperChar (CHR ''g'') = CHR ''G''"
  "toUpperChar (CHR ''h'') = CHR ''H''" "toUpperChar (CHR ''i'') = CHR ''I''" "toUpperChar (CHR ''j'') = CHR ''J''"
  "toUpperChar (CHR ''k'') = CHR ''K''" "toUpperChar (CHR ''l'') = CHR ''L''" "toUpperChar (CHR ''m'') = CHR ''M''"
  "toUpperChar (CHR ''n'') = CHR ''N''" "toUpperChar (CHR ''o'') = CHR ''O''" "toUpperChar (CHR ''p'') = CHR ''P''"
  "toUpperChar (CHR ''q'') = CHR ''Q''" "toUpperChar (CHR ''r'') = CHR ''R''" "toUpperChar (CHR ''s'') = CHR ''S''"
  "toUpperChar (CHR ''t'') = CHR ''T''" "toUpperChar (CHR ''u'') = CHR ''U''" "toUpperChar (CHR ''v'') = CHR ''V''"
  "toUpperChar (CHR ''w'') = CHR ''W''" "toUpperChar (CHR ''x'') = CHR ''X''" "toUpperChar (CHR ''y'') = CHR ''Y''"
  "toUpperChar (CHR ''z'') = CHR ''Z''" "toUpperChar (CHR ''{'') = CHR ''{''" "toUpperChar (CHR ''|'') = CHR ''|''"
  "toUpperChar (CHR ''}'') = CHR ''}''" "toUpperChar (CHR ''~'') = CHR ''~''"
  by (simp_all add: toUpperChar_def)

lemmas case_eval =
  toLowerCase_def toUpperCase_def list.map toLowerChar_table toUpperChar_table






section \<open>Properties of \<^verbatim>\<open>generateImageForPrompt\<close>\<close>

lemma scripted_prompt:
  "p \<noteq> [] \<Longrightarrow>
   augmentedPrompt (scripted_image_env flash imagen) p s e = Inr (plain_prompt p s e)"
  by (simp add: augmentedPrompt_def sceneDetails_def characterSections_def sceneContext_def
        scripted_image_env_def plain_prompt_def)

lemma scripted_prompt_total:
  "\<exists>q. augmentedPrompt (scripted_image_env flash imagen) p s e = Inr q"
  by (simp add: augmentedPrompt_def sceneDetails_def characterSections_def
        scripted_image_env_def)

lemma js_includes_append_left: "js_includes xs p \<Longrightarrow> js_includes (xs @ ys) p"
proof (induction xs)
  case Nil
  then show ?case by (cases ys) auto
next
  case (Cons x xs)
  show ?case
  proof (cases "prefix p (x # xs)")
    case True
    then have "prefix p ((x # xs) @ ys)" by (rule prefix_prefix)
    then show ?thesis by simp
  next
    case False
    with Cons show ?thesis by simp
  qed
qed

lemma safety_marker:
  "js_includes (toLowerCase (''Image generation was blocked by safety filters'' @ rest))
     ''blocked by safety filters''"
proof -
  have "js_includes (toLowerCase ''Image generation was blocked by safety filters'')
     ''blocked by safety filters''"
    apply (simp only: case_eval cong: map_block)
    apply (simp add: includes_eval del: js_includes.simps(2) Cons_prefix_Cons
                cong: js_includes_block prefix_block)
    done
  from js_includes_append_left[OF this, of "toLowerCase rest"] show ?thesis
    by (simp add: toLowerCase_def)
qed

lemma safetyMessage_isSafetyError: "isSafetyError (safetyMessage reason br)"
  using safety_marker[of "'' (Reason: '' @ reason @ '').''
     @ (case br of
          None \<Rightarrow> []
        | Some r \<Rightarrow> '' Details: Category '' @ HarmCategory_value (category r)
                    @ '', Probability '' @ HarmProbability_value (probability r) @ ''.'')
     @ '' Please try a different prompt or adjust story content.''"]
  by (simp add: isSafetyError_def safetyMessage_def)

lemma safetyMessage_plain_class:
  assumes "reason = ''SAFETY'' \<or> reason = ''IMAGE_SAFETY''"
  shows "\<not> isApiKeyIssue (safetyMessage reason None)
       \<and> \<not> isRateLimitError (safetyMessage reason None)
       \<and> \<not> isInternalServerError (safetyMessage reason None)"
  using assms
  apply (elim disjE)
   apply (simp_all only: safetyMessage_def isApiKeyIssue_def isRateLimitError_def
      isInternalServerError_def option.case)
   apply (simp_all only: append.simps append_assoc cong: append_block)
   apply (simp_all only: case_eval cong: map_block)
   apply (simp_all add: includes_eval del: js_includes.simps(2) Cons_prefix_Cons
                cong: js_includes_block prefix_block)
  done

lemma safetyMessage_rated_class:
  assumes "reason = ''SAFETY'' \<or> reason = ''IMAGE_SAFETY''"
  shows "\<not> isApiKeyIssue (safetyMessage reason (Some r))
       \<and> \<not> isRateLimitError (safetyMessage reason (Some r))
       \<and> \<not> isInternalServerError (safetyMessage reason (Some r))"
  using assms
  apply (elim disjE)
   apply (cases "category r"; cases "probability r")
   apply (simp_all only: safetyMessage_def isApiKeyIssue_def isRateLimitError_def
      isInternalServerError_def option.case HarmCategory_value.simps HarmProbability_value.simps)
   apply (simp_all only: append.simps append_assoc cong: append_block)
   apply (simp_all only: case_eval cong: map_block)
   apply (simp_all add: includes_eval del: js_includes.simps(2) Cons_prefix_Cons
                cong: js_includes_block prefix_block)
   apply (cases "category r"; cases "probability r")
   apply (simp_all only: safetyMessage_def isApiKeyIssue_def isRateLimitError_def
      isInternalServerError_def option.case HarmCategory_value.simps HarmProbability_value.simps)
   apply (simp_all only: append.simps append_assoc cong: append_block)
   apply (simp_all only: case_eval cong: map_block)
   apply (simp_all add: includes_eval del: js_includes.simps(2) Cons_prefix_Cons
                cong: js_includes_block prefix_block)
  done

lemma image_catch_safety:
  assumes "reason = ''SAFETY'' \<or> reason = ''IMAGE_SAFETY''"
  shows "image_catch env imageModelName retries (Error (safetyMessage reason br))
           = Throw (Error (safetyMessage reason br))"
proof (cases br)
  case None
  then show ?thesis
    using safetyMessage_plain_class[OF assms] safetyMessage_isSafetyError[of reason None]
    by (simp add: image_catch_def)
next
  case (Some r)
  then show ?thesis
    using safetyMessage_rated_class[OF assms, of r] safetyMessage_isSafetyError[of reason "Some r"]
    by (simp add: image_catch_def)
qed

lemma retry_loop_returns:
  assumes "retries \<le> maxRetries"
    and "attempt env imageModelName (image_request_of imageModelName prompt ratio) retries = Inr url"
  shows "retry_loop env imageModelName prompt ratio retries
           = (Inr url, [ImageCall (image_request_of imageModelName prompt ratio)])"
  using assms by (subst retry_loop.simps) simp

lemma retry_loop_throws:
  assumes "retries \<le> maxRetries"
    and "attempt env imageModelName (image_request_of imageModelName prompt ratio) retries = Inl err"
    and "image_catch env imageModelName retries err = Throw e"
  shows "retry_loop env imageModelName prompt ratio retries
           = (Inl e, [ImageCall (image_request_of imageModelName prompt ratio)])"
  using assms by (subst retry_loop.simps) simp




lemma flash_request_of:
  "image_request_of (ImageGenerationModel_value GEMINI_2_FLASH_IMG) prompt ratio
     = GenerateContent (flash_request prompt)"
  by (simp add: image_request_of_def flash_request_def)

lemma imagen_request_of:
  "image_request_of (ImageGenerationModel_value IMAGEN_3) prompt ratio
     = GenerateImages (imagen_request prompt ratio)"
  by (simp add: image_request_of_def imagen_request_def)


lemma retry_loop_requests:
  "ImageCall r \<in> set (snd (retry_loop env imageModelName prompt ratio retries)) \<Longrightarrow>
     r = image_request_of imageModelName prompt ratio"
proof (induction env imageModelName prompt ratio retries rule: retry_loop.induct)
  case (1 env imageModelName prompt ratio retries)
  show ?case
    using "1.prems" "1.IH"
    by (subst (asm) retry_loop.simps)
       (auto simp: Let_def split: if_splits sum.splits catch_outcome.splits prod.splits)
qed





text \<open>
  C9, as stated, fails for the request shape of the Gemini Flash model: its
  configuration holds the response modalities and the seed, and no aspect ratio, whatever
  the aspect-ratio setting.
\<close>

theorem flash_request_without_aspect_ratio_counterexample:
  "snd (generateImageForPrompt always_answers ''key'' ''A cat'' PORTRAIT
          (ImageGenerationModel_value GEMINI_2_FLASH_IMG) ''Anime/Manga'' ''Futuristic/Sci-Fi'')
     = [NewClient ''key'', ImageCall (GenerateContent (flash_request cat_prompt))]
   \<and> gc_config (flash_request cat_prompt)
       = [(''responseModalities'', CModalities [TEXT, IMAGE]), (''seed'', CInt 42)]
   \<and> map_of (gc_config (flash_request cat_prompt)) ''aspectRatio'' = None"
proof -
  have "attempt always_answers (ImageGenerationModel_value GEMINI_2_FLASH_IMG)
          (GenerateContent (flash_request cat_prompt)) 0
        = Inr ''data:image/png;base64,iVBOR''"
    by (simp add: attempt_def always_answers_def scripted_image_env_def flash_result_def
          image_answer_def image_data_url_def Let_def)
  from retry_loop_returns[of 0 always_answers "ImageGenerationModel_value GEMINI_2_FLASH_IMG"
      cat_prompt "apiAspectRatioValue PORTRAIT", unfolded flash_request_of, OF _ this]
  have "retry_loop always_answers (ImageGenerationModel_value GEMINI_2_FLASH_IMG) cat_prompt
          (apiAspectRatioValue PORTRAIT) 0
        = (Inr ''data:image/png;base64,iVBOR'', [ImageCall (GenerateContent (flash_request cat_prompt))])"
    by simp
  moreover have "augmentedPrompt always_answers ''A cat'' ''Anime/Manga'' ''Futuristic/Sci-Fi''
                   = Inr cat_prompt"
    by (simp add: always_answers_def scripted_prompt cat_prompt_def)
  ultimately show ?thesis
    by (simp add: generateImageForPrompt_def flash_request_def FIXED_IMAGE_SEED_def)
qed

text \<open>
  C9, amended. Every request that \<^verbatim>\<open>generateImageForPrompt\<close> sends carries the seed 42.
  A \<^verbatim>\<open>generateImages\<close> request (any model but Gemini Flash) also carries the aspect
  ratio of the setting, 1:1, 9:16 or 16:9; a \<^verbatim>\<open>generateContent\<close> request (Gemini Flash)
  carries no aspect ratio.
\<close>

theorem image_requests_seed_and_ratio:
  assumes "ImageCall req \<in> set (snd (generateImageForPrompt env apiKey initialImagePrompt
             inputAspectRatio imageModelName style' era'))"
  shows "map_of (request_config req) ''seed'' = Some (CInt 42)
       \<and> (case req of
            GenerateContent r \<Rightarrow>
              imageModelName = ImageGenerationModel_value GEMINI_2_FLASH_IMG
              \<and> map_of (gc_config r) ''aspectRatio'' = None
          | GenerateImages r \<Rightarrow>
              imageModelName \<noteq> ImageGenerationModel_value GEMINI_2_FLASH_IMG
              \<and> map_of (gi_config r) ''aspectRatio''
                  = Some (CStr (case inputAspectRatio of
                                  SQUARE \<Rightarrow> ''1:1'' | PORTRAIT \<Rightarrow> ''9:16''
                                | LANDSCAPE \<Rightarrow> ''16:9'')))"
proof -
  from assms obtain prompt where
    "ImageCall req \<in> set (snd (retry_loop env imageModelName prompt
        (apiAspectRatioValue inputAspectRatio) 0))"
    by (auto simp: generateImageForPrompt_def split: if_splits sum.splits prod.splits)
       (metis snd_conv)
  from retry_loop_requests[OF this]
  have "req = image_request_of imageModelName prompt (apiAspectRatioValue inputAspectRatio)" .
  then show ?thesis
    by (cases inputAspectRatio)
       (auto simp: image_request_of_def request_config_def FIXED_IMAGE_SEED_def)
qed

text \<open>An Imagen request in landscape.\<close>

theorem image_requests_seed_and_ratio_witness:
  "snd (generateImageForPrompt always_answers ''key'' ''A cat'' LANDSCAPE
          (ImageGenerationModel_value IMAGEN_3) ''Anime/Manga'' ''Futuristic/Sci-Fi'')
     = [NewClient ''key'', ImageCall (GenerateImages (imagen_request cat_prompt ''16:9''))]
   \<and> map_of (request_config (GenerateImages (imagen_request cat_prompt ''16:9''))) ''seed''
       = Some (CInt 42)
   \<and> map_of (gi_config (imagen_request cat_prompt ''16:9'')) ''aspectRatio'' = Some (CStr ''16:9'')"
proof -
  have "attempt always_answers (ImageGenerationModel_value IMAGEN_3)
          (GenerateImages (imagen_request cat_prompt (apiAspectRatioValue LANDSCAPE))) 0
        = Inr ''data:image/jpeg;base64,/9j/4AAQ''"
    by (simp add: attempt_def always_answers_def scripted_image_env_def imagen_result_def
          imagen_answer_def)
  from retry_loop_returns[of 0 always_answers "ImageGenerationModel_value IMAGEN_3"
      cat_prompt "apiAspectRatioValue LANDSCAPE", unfolded imagen_request_of, OF _ this]
  have "retry_loop always_answers (ImageGenerationModel_value IMAGEN_3) cat_prompt
          (apiAspectRatioValue LANDSCAPE) 0
        = (Inr ''data:image/jpeg;base64,/9j/4AAQ'',
           [ImageCall (GenerateImages (imagen_request cat_prompt ''16:9''))])"
    by simp
  moreover have "augmentedPrompt always_answers ''A cat'' ''Anime/Manga'' ''Futuristic/Sci-Fi''
                   = Inr cat_prompt"
    by (simp add: always_answers_def scripted_prompt cat_prompt_def)
  ultimately have eff: "snd (generateImageForPrompt always_answers ''key'' ''A cat'' LANDSCAPE
          (ImageGenerationModel_value IMAGEN_3) ''Anime/Manga'' ''Futuristic/Sci-Fi'')
     = [NewClient ''key'', ImageCall (GenerateImages (imagen_request cat_prompt ''16:9''))]"
    by (simp add: generateImageForPrompt_def)
  have "ImageCall (GenerateImages (imagen_request cat_prompt ''16:9''))
          \<in> set (snd (generateImageForPrompt always_answers ''key'' ''A cat'' LANDSCAPE
          (ImageGenerationModel_value IMAGEN_3) ''Anime/Manga'' ''Futuristic/Sci-Fi''))"
    unfolding eff by simp
  from image_requests_seed_and_ratio[OF this] eff show ?thesis by simp
qed

section \<open>Properties of \<^verbatim>\<open>handleComicGeneration\<close>\<close>

lemma same_scene_number_refl: "same_scene_number i a i a"
  by (cases a) auto

lemma same_scene_number_eq: "same_scene_number j a i b \<Longrightarrow> j \<noteq> i \<Longrightarrow> a = b"
  by (cases a; cases b) auto

lemma same_scene_number_distinct:
  assumes "distinct nums" "i < length nums" "j < length nums"
  shows "same_scene_number j (nums ! j) i (nums ! i) \<longleftrightarrow> j = i"
proof
  assume s: "same_scene_number j (nums ! j) i (nums ! i)"
  show "j = i"
  proof (rule ccontr)
    assume "j \<noteq> i"
    with same_scene_number_eq[OF s] have "nums ! j = nums ! i" by simp
    with assms \<open>j \<noteq> i\<close> show False by (simp add: nth_eq_iff_index_eq)
  qed
next
  assume "j = i"
  then show "same_scene_number j (nums ! j) i (nums ! i)" by (simp add: same_scene_number_refl)
qed

lemma length_set_image_from [simp]: "length (set_image_from j i n v ps) = length ps"
  by (induction ps arbitrary: j) auto

lemma nth_set_image_from:
  "k < length ps \<Longrightarrow>
     set_image_from j i n v ps ! k
       = (if same_scene_number (j + k) (scene_number (ps ! k)) i n
          then (ps ! k)\<lparr>imageUrl := Some v\<rparr> else ps ! k)"
proof (induction ps arbitrary: j k)
  case Nil
  then show ?case by simp
next
  case (Cons p ps)
  show ?case
  proof (cases k)
    case 0
    then show ?thesis by simp
  next
    case (Suc m)
    with Cons.prems have "m < length ps" by simp
    from Cons.IH[OF this, of "Suc j"] Suc show ?thesis by simp
  qed
qed

lemma fst_image_step:
  "fst (image_step env apiKey options i panel st)
     = set_image i (scene_number panel) (slot_value (image_result env apiKey options i panel)) (fst st)"
  by (simp add: image_step_def slot_value_def Let_def split: sum.splits)

lemma image_step_panels_after:
  assumes d: "distinct (map scene_number sp)" and i: "i < length sp"
  shows "fst (image_step env apiKey options i (sp ! i) (panels_after env apiKey options sp i, e))
           = panels_after env apiKey options sp (Suc i)"
proof (rule nth_equalityI)
  show "length (fst (image_step env apiKey options i (sp ! i) (panels_after env apiKey options sp i, e)))
          = length (panels_after env apiKey options sp (Suc i))"
    by (simp add: fst_image_step set_image_def panels_after_def)
next
  fix j assume "j < length (fst (image_step env apiKey options i (sp ! i)
                      (panels_after env apiKey options sp i, e)))"
  then have j: "j < length sp" by (simp add: fst_image_step set_image_def panels_after_def)
  have "same_scene_number j (map scene_number sp ! j) i (map scene_number sp ! i) \<longleftrightarrow> j = i"
    using same_scene_number_distinct[OF d] i j by simp
  then have s: "same_scene_number j (scene_number (sp ! j)) i (scene_number (sp ! i)) \<longleftrightarrow> j = i"
    using i j by simp
  show "fst (image_step env apiKey options i (sp ! i) (panels_after env apiKey options sp i, e)) ! j
          = panels_after env apiKey options sp (Suc i) ! j"
    using j s by (auto simp: fst_image_step set_image_def panels_after_def nth_set_image_from less_Suc_eq)
qed

lemma image_loop_panels_after:
  assumes d: "distinct (map scene_number sp)"
  shows "i \<le> length sp \<Longrightarrow>
         map fst (image_loop env apiKey options (drop i sp) i (panels_after env apiKey options sp i, e))
           = map (panels_after env apiKey options sp) [Suc i ..< Suc (length sp)]"
proof (induction "length sp - i" arbitrary: i e)
  case 0
  then show ?case by simp
next
  case (Suc n)
  then have i: "i < length sp" by simp
  then have dr: "drop i sp = sp ! i # drop (Suc i) sp" by (simp add: Cons_nth_drop_Suc)
  obtain e' where st: "image_step env apiKey options i (sp ! i) (panels_after env apiKey options sp i, e)
                   = (panels_after env apiKey options sp (Suc i), e')"
    using image_step_panels_after[OF d i, of env apiKey options e]
    by (metis prod.collapse)
  have n: "n = length sp - Suc i" using Suc.hyps(2) by simp
  have "map fst (image_loop env apiKey options (drop (Suc i) sp) (Suc i)
                   (panels_after env apiKey options sp (Suc i), e'))
           = map (panels_after env apiKey options sp) [Suc (Suc i) ..< Suc (length sp)]"
    using Suc.hyps(1)[OF n] i by simp
  then show ?case using i
    by (simp add: dr st Let_def upt_conv_Cons del: upt_Suc)
qed

lemma panels_after_0:
  "panels_after env apiKey options sp 0 = map (\<lambda>p. p\<lparr>imageUrl := None\<rparr>) sp"
  by (rule nth_equalityI) (simp_all add: panels_after_def)

lemma always_answers_flash:
  "apiKey \<noteq> [] \<Longrightarrow>
   fst (generateImageForPrompt always_answers apiKey p ar
          (ImageGenerationModel_value GEMINI_2_FLASH_IMG) s e)
     = Inr ''data:image/png;base64,iVBOR''"
proof -
  assume k: "apiKey \<noteq> []"
  obtain q where q: "augmentedPrompt always_answers p s e = Inr q"
    using scripted_prompt_total unfolding always_answers_def by blast
  have "attempt always_answers (ImageGenerationModel_value GEMINI_2_FLASH_IMG)
          (GenerateContent (flash_request q)) 0
        = Inr ''data:image/png;base64,iVBOR''"
    by (simp add: attempt_def always_answers_def scripted_image_env_def flash_result_def
          image_answer_def image_data_url_def Let_def)
  from retry_loop_returns[of 0 always_answers "ImageGenerationModel_value GEMINI_2_FLASH_IMG"
      q "apiAspectRatioValue ar", unfolded flash_request_of, OF _ this]
  have "fst (retry_loop always_answers (ImageGenerationModel_value GEMINI_2_FLASH_IMG) q
          (apiAspectRatioValue ar) 0) = Inr ''data:image/png;base64,iVBOR''"
    by simp
  with q show ?thesis using k
    by (simp add: generateImageForPrompt_def case_prod_beta)
qed

lemma safety_blocked_flash:
  "apiKey \<noteq> [] \<Longrightarrow>
   fst (generateImageForPrompt safety_blocked apiKey p ar
          (ImageGenerationModel_value GEMINI_2_FLASH_IMG) s e)
     = Inl (Error (safetyMessage ''SAFETY''
         (Some \<lparr> category = HARM_CATEGORY_HARASSMENT, probability = HIGH, blocked = Some True \<rparr>)))"
proof -
  assume k: "apiKey \<noteq> []"
  let ?br = "Some \<lparr> category = HARM_CATEGORY_HARASSMENT, probability = HIGH, blocked = Some True \<rparr>"
  obtain q where q: "augmentedPrompt safety_blocked p s e = Inr q"
    using scripted_prompt_total unfolding safety_blocked_def by blast
  have "attempt safety_blocked (ImageGenerationModel_value GEMINI_2_FLASH_IMG)
          (GenerateContent (flash_request q)) 0
        = Inl (Error (safetyMessage ''SAFETY'' ?br))"
    by (simp add: attempt_def safety_blocked_def scripted_image_env_def flash_result_def
          safety_answer_def blockedRating_def Let_def)
  from retry_loop_throws[of 0 safety_blocked "ImageGenerationModel_value GEMINI_2_FLASH_IMG"
      q "apiAspectRatioValue ar", unfolded flash_request_of, OF _ this image_catch_safety]
  have "fst (retry_loop safety_blocked (ImageGenerationModel_value GEMINI_2_FLASH_IMG) q
          (apiAspectRatioValue ar) 0) = Inl (Error (safetyMessage ''SAFETY'' ?br))"
    by simp
  with q show ?thesis using k
    by (simp add: generateImageForPrompt_def case_prod_beta)
qed

lemma list_of_length_2: "length xs = 2 \<Longrightarrow> xs = [xs ! 0, xs ! 1]"
  by (cases xs; cases "tl xs") auto

lemma collision_prompts:
  "fst (generateScenePrompts colliding_env ''key'' (sample_options 2 False IN_UI))
     = Inr [plain_panel 2 ''Zara unfolds the map'', plain_panel 2 ''Zara runs'']"
  by (simp add: scene_eval colliding_numbers_def)

lemma two_scene_prompts:
  "fst (generateScenePrompts unnumbered_env ''key'' (sample_options 2 False IN_UI))
     = Inr [plain_panel 1 ''Zara unfolds the map'', plain_panel 2 ''Zara runs'']"
  by (simp add: scene_eval two_unnumbered_scenes_def)

lemma sample_flash_model:
  "ImageGenerationModel_value (imageModel (sample_options n c pl))
     = ImageGenerationModel_value GEMINI_2_FLASH_IMG"
  by (simp add: sample_options_def)

lemma collision_results:
  "image_result collision_env ''key'' (sample_options 2 False IN_UI) 0 p
     = Inr ''data:image/png;base64,iVBOR''"
  "image_result collision_env ''key'' (sample_options 2 False IN_UI) (Suc 0) p
     = Inl (Error (safetyMessage ''SAFETY''
         (Some \<lparr> category = HARM_CATEGORY_HARASSMENT, probability = HIGH, blocked = Some True \<rparr>)))"
  using always_answers_flash[of "''key''"] safety_blocked_flash[of "''key''"]
  by (simp_all only: image_result_def sample_flash_model)
     (simp_all add: collision_env_def)

lemma two_scene_results:
  "image_result two_scene_env ''key'' (sample_options 2 False IN_UI) 0 p
     = Inl (Error (safetyMessage ''SAFETY''
         (Some \<lparr> category = HARM_CATEGORY_HARASSMENT, probability = HIGH, blocked = Some True \<rparr>)))"
  "image_result two_scene_env ''key'' (sample_options 2 False IN_UI) (Suc 0) p
     = Inr ''data:image/png;base64,iVBOR''"
  using always_answers_flash[of "''key''"] safety_blocked_flash[of "''key''"]
  by (simp_all only: image_result_def sample_flash_model)
     (simp_all add: two_scene_env_def)

text \<open>
  C6, as stated, fails when two panels carry the same scene number: the first pass
  writes its image into both slots, and the failure of the second pass then replaces both
  by the error marker. The slot of the first panel changes twice, from an image to the
  error marker, and the failure of the second panel is recorded on the first as well.
\<close>

theorem slot_overwritten_counterexample:
  "snd (handleComicGeneration collision_env (sample_options 2 False IN_UI) start_state)
     = [[],
        [plain_panel 2 ''Zara unfolds the map'', plain_panel 2 ''Zara runs''],
        [(plain_panel 2 ''Zara unfolds the map'')\<lparr>imageUrl := Some ''data:image/png;base64,iVBOR''\<rparr>,
         (plain_panel 2 ''Zara runs'')\<lparr>imageUrl := Some ''data:image/png;base64,iVBOR''\<rparr>],
        [(plain_panel 2 ''Zara unfolds the map'')\<lparr>imageUrl := Some ''error''\<rparr>,
         (plain_panel 2 ''Zara runs'')\<lparr>imageUrl := Some ''error''\<rparr>]]"
proof -
  have k: "trim ''key'' \<noteq> []" "app_apiKey start_state = ''key''"
    by (simp_all add: start_state_def trim_def is_space_def)
  have e: "scene_env collision_env = colliding_env"
    by (simp add: collision_env_def)
  show ?thesis
    unfolding handleComicGeneration_def k(2) e collision_prompts
    using k(1)
    by (simp add: Let_def image_step_def collision_results set_image_def plain_panel_def)
qed

text \<open>
  C6, amended. In a generation run whose panels have pairwise distinct scene numbers,
  the displayed list after pass \<open>k\<close> holds, for every panel up to \<open>k\<close>, the outcome of
  that panel's own call (the image reference, or the error marker when the call threw),
  and an absent image for every later panel. So each slot changes exactly once, at its
  own pass, from absent to an image reference or the error marker, and never again; a
  failure is recorded as the error marker of that panel alone, and the passes after it
  still take place.
\<close>

theorem image_slots_fill_once_in_order:
  assumes key: "trim (app_apiKey s) \<noteq> []"
    and prompts: "fst (generateScenePrompts (scene_env env) (app_apiKey s) options) = Inr scenePrompts"
    and nonempty: "scenePrompts \<noteq> []"
    and d: "distinct (map scene_number scenePrompts)"
  shows "\<exists>states.
           snd (handleComicGeneration env options s)
             = [] # map (\<lambda>p. p\<lparr>imageUrl := None\<rparr>) scenePrompts # states
           \<and> length states = length scenePrompts
           \<and> (\<forall>k < length scenePrompts.
                 length (states ! k) = length scenePrompts
                 \<and> (\<forall>j < length scenePrompts.
                       states ! k ! j
                         = (scenePrompts ! j)\<lparr>imageUrl :=
                             (if j \<le> k
                              then Some (slot_value (image_result env (app_apiKey s) options j
                                                       (scenePrompts ! j)))
                              else None)\<rparr>))
           \<and> comicPanels (fst (handleComicGeneration env options s)) = last states"
proof -
  let ?after = "panels_after env (app_apiKey s) options scenePrompts"
  let ?init = "map (\<lambda>p. p\<lparr>imageUrl := None\<rparr>) scenePrompts"
  let ?loop = "image_loop env (app_apiKey s) options scenePrompts 0 (?init, None)"
  let ?states = "map fst ?loop"
  have st: "?states = map ?after [Suc 0 ..< Suc (length scenePrompts)]"
    using image_loop_panels_after[OF d, of 0 env "app_apiKey s" options None]
    by (simp add: panels_after_0)
  have tr: "snd (handleComicGeneration env options s) = [] # ?init # ?states"
    using key prompts nonempty by (simp add: handleComicGeneration_def Let_def)
  have len: "length ?states = length scenePrompts" unfolding st by (simp del: upt_Suc)
  have ne: "?loop \<noteq> []" using len nonempty by (metis length_0_conv length_map)
  have fin: "comicPanels (fst (handleComicGeneration env options s)) = last ?states"
    using key prompts nonempty ne by (simp add: handleComicGeneration_def Let_def last_map)
  have each: "length (?states ! k) = length scenePrompts
                 \<and> (\<forall>j < length scenePrompts.
                       ?states ! k ! j
                         = (scenePrompts ! j)\<lparr>imageUrl :=
                             (if j \<le> k
                              then Some (slot_value (image_result env (app_apiKey s) options j
                                                       (scenePrompts ! j)))
                              else None)\<rparr>)"
    if "k < length scenePrompts" for k
  proof -
    have "?states ! k = ?after (Suc k)" unfolding st using that
      by (simp add: nth_append del: upt_Suc)
    then show ?thesis by (simp add: panels_after_def less_Suc_eq_le)
  qed
  from tr len each fin show ?thesis by blast
qed

text \<open>The first of two panels is blocked, the second is generated.\<close>

theorem image_slots_fill_once_in_order_witness:
  "snd (handleComicGeneration two_scene_env (sample_options 2 False IN_UI) start_state)
     = [[],
        [plain_panel 1 ''Zara unfolds the map'', plain_panel 2 ''Zara runs''],
        [(plain_panel 1 ''Zara unfolds the map'')\<lparr>imageUrl := Some ''error''\<rparr>,
         plain_panel 2 ''Zara runs''],
        [(plain_panel 1 ''Zara unfolds the map'')\<lparr>imageUrl := Some ''error''\<rparr>,
         (plain_panel 2 ''Zara runs'')\<lparr>imageUrl := Some ''data:image/png;base64,iVBOR''\<rparr>]]"
proof -
  let ?a = "plain_panel 1 ''Zara unfolds the map''"
  let ?b = "plain_panel 2 ''Zara runs''"
  let ?o = "sample_options 2 False IN_UI"
  have k: "trim (app_apiKey start_state) \<noteq> []"
    by (simp add: start_state_def trim_def is_space_def)
  have k2: "app_apiKey start_state = ''key''" by (simp add: start_state_def)
  have p: "fst (generateScenePrompts (scene_env two_scene_env) (app_apiKey start_state) ?o)
             = Inr [?a, ?b]"
    using two_scene_prompts by (simp add: two_scene_env_def start_state_def)
  have d: "distinct (map scene_number [?a, ?b])" by (simp add: plain_panel_def)
  from image_slots_fill_once_in_order[OF k p _ d] obtain states where
    tr: "snd (handleComicGeneration two_scene_env ?o start_state)
           = [] # map (\<lambda>p. p\<lparr>imageUrl := None\<rparr>) [?a, ?b] # states"
    and len: "length states = 2"
    and each: "\<forall>k<2. length (states ! k) = 2
                 \<and> (\<forall>j<2. states ! k ! j
                         = ([?a, ?b] ! j)\<lparr>imageUrl :=
                             (if j \<le> k
                              then Some (slot_value (image_result two_scene_env ''key'' ?o j
                                                       ([?a, ?b] ! j)))
                              else None)\<rparr>)"
    unfolding k2 by auto
  have s0: "states ! 0 = [?a\<lparr>imageUrl := Some ''error''\<rparr>, ?b\<lparr>imageUrl := None\<rparr>]"
    using each list_of_length_2[of "states ! 0"] by (simp add: two_scene_results slot_value_def)
  have s1: "states ! 1 = [?a\<lparr>imageUrl := Some ''error''\<rparr>,
                          ?b\<lparr>imageUrl := Some ''data:image/png;base64,iVBOR''\<rparr>]"
    using each list_of_length_2[of "states ! 1"]
    by (simp add: two_scene_results slot_value_def)
  have "states = [states ! 0, states ! 1]" using len by (rule list_of_length_2)
  with s0 s1 tr show ?thesis by (simp add: plain_panel_def)
qed

section \<open>Properties of \<^verbatim>\<open>handleDownloadPdf\<close>\<close>



lemma pdf_draw_nonempty [simp]: "pdf_draw x pdf \<noteq> []"
  by (simp add: pdf_draw_def)

lemma pdf_addPage_nonempty [simp]: "pdf_addPage pdf \<noteq> []"
  by (simp add: pdf_addPage_def)























end
